theory Spec2Isabelle
  imports Complex_Main
begin

section \<open>Numbers and strings of the host language\<close>

text \<open>
  The service is TypeScript. Pixel dimensions, bitrates and quality factors are whole
  numbers and are modelled as \<open>nat\<close>; durations and the content-complexity factor are
  fractional and are modelled as exact reals (\<open>real\<close>), the idealisation of the
  IEEE doubles of the runtime (no rounding error, no \<open>NaN\<close>, and whole numbers
  print as plain decimal digits). Thrown \<open>Error\<close> objects are values of the type
  \<open>error\<close>; a function that may throw returns \<open>error + 'a\<close> with \<open>Inl\<close> the throw.
\<close>

datatype error =
    VideoFileNotFound string      \<comment> \<open>\<open>Video file not found: <path>\<close>\<close>
  | InvalidVideoDuration real     \<comment> \<open>\<open>Invalid video duration: <d>s\<close>\<close>
  | VideoTooShort real            \<comment> \<open>\<open>Video is too short for sprite sheet generation: <d>s\<close>\<close>
  | NoVideoStream                 \<comment> \<open>\<open>No video stream found in the file\<close>\<close>
  | TypeError string              \<comment> \<open>property read on \<open>undefined\<close>\<close>
  | External string               \<comment> \<open>an error raised by ffmpeg, the file system or S3\<close>

text \<open>\<open>Math.round\<close>: the nearest integer, a tie going up.\<close>

definition Math_round :: "real \<Rightarrow> int" where
  "Math_round x = \<lfloor>x + 1 / 2\<rfloor>"

text \<open>Template-literal formatting of a whole number: its decimal digits.\<close>

definition digit_char :: "nat \<Rightarrow> char" where
  "digit_char d =
     (if d = 0 then CHR ''0'' else if d = 1 then CHR ''1'' else if d = 2 then CHR ''2''
      else if d = 3 then CHR ''3'' else if d = 4 then CHR ''4'' else if d = 5 then CHR ''5''
      else if d = 6 then CHR ''6'' else if d = 7 then CHR ''7'' else if d = 8 then CHR ''8''
      else CHR ''9'')"

function string_of_nat :: "nat \<Rightarrow> string" where
  "string_of_nat n =
     (if n < 10 then [digit_char n] else string_of_nat (n div 10) @ [digit_char (n mod 10)])"
  by pat_completeness auto
termination
  by (relation "measure id") auto

declare string_of_nat.simps [simp del]

definition string_of_int :: "int \<Rightarrow> string" where
  "string_of_int i = (if i < 0 then CHR ''-'' # string_of_nat (nat (- i)) else string_of_nat (nat i))"

section \<open>The resolution catalog (consts/video)\<close>

record ResolutionTarget =
  width :: nat
  height :: nat
  baseBitrate :: nat
  crf :: nat

text \<open>
  \<open>resolutionTargets\<close> is an object literal; \<open>Object.entries\<close> lists its keys in
  insertion order (none of them is an integer index), so it is an association list.
\<close>

definition resolutionTargets :: "(string \<times> ResolutionTarget) list" where
  "resolutionTargets =
    [(''2160p'', \<lparr>width = 3840, height = 2160, baseBitrate = 15000, crf = 20\<rparr>),
     (''1440p'', \<lparr>width = 2560, height = 1440, baseBitrate = 8000, crf = 21\<rparr>),
     (''1080p'', \<lparr>width = 1920, height = 1080, baseBitrate = 5000, crf = 22\<rparr>),
     (''720p'', \<lparr>width = 1280, height = 720, baseBitrate = 2500, crf = 23\<rparr>),
     (''480p'', \<lparr>width = 854, height = 480, baseBitrate = 1000, crf = 23\<rparr>)]"

text \<open>\<open>resolutionTargets[key].baseBitrate\<close>: a missing key is a \<open>TypeError\<close>.\<close>

definition target_baseBitrate :: "string \<Rightarrow> error + nat" where
  "target_baseBitrate key =
     (case map_of resolutionTargets key of
        None \<Rightarrow> Inl (TypeError key)
      | Some t \<Rightarrow> Inr (baseBitrate t))"

section \<open>Resolution planner (videoService: calculateBitrate, getDynamicResolutions)\<close>

text \<open>An element of the planner's result; the fields are those of the source, prefixed.\<close>

record Resolution =
  r_width :: nat
  r_height :: nat
  r_bitrate :: string
  r_crf :: nat
  r_name :: string

text \<open>
  \<open>calculateBitrate\<close> in exact arithmetic. The runtime multiplies and divides IEEE doubles
  before it rounds, so for a fractional complexity factor the rounded value can differ
  by one from the exact one. At complexity factor 1, the only value \<open>convertToHLS\<close>
  passes, the products of the catalog are far from a rounding tie and both agree; the
  bitrate formula is stated below for that factor only.
\<close>

definition calculateBitrate :: "nat \<Rightarrow> nat \<Rightarrow> nat \<Rightarrow> real \<Rightarrow> string" where
  "calculateBitrate w h base complexityFactor =
     (let resolutionFactor = of_nat (w * h) / (1920 * 1080);
          bitrate = Math_round (of_nat base * resolutionFactor * complexityFactor)
      in string_of_int bitrate @ ''k'')"

definition pixels :: "string \<times> ResolutionTarget \<Rightarrow> nat" where
  "pixels e = width (snd e) * height (snd e)"

text \<open>
  \<open>Array.prototype.sort\<close> with the comparator \<open>b.width * b.height - a.width * a.height\<close>
  is a stable sort by descending pixel count: \<open>sort_key\<close> (a stable insertion sort) on
  the negated count.
\<close>

definition possibleTargets :: "(string \<times> ResolutionTarget) list" where
  "possibleTargets = sort_key (\<lambda>e. - int (pixels e)) resolutionTargets"

definition tier_of :: "real \<Rightarrow> string \<times> ResolutionTarget \<Rightarrow> Resolution" where
  "tier_of contentComplexity e =
     \<lparr>r_width = width (snd e), r_height = height (snd e),
      r_bitrate = calculateBitrate (width (snd e)) (height (snd e)) (baseBitrate (snd e))
                    contentComplexity,
      r_crf = crf (snd e), r_name = fst e\<rparr>"

definition getDynamicResolutions :: "nat \<Rightarrow> nat \<Rightarrow> real \<Rightarrow> error + Resolution list" where
  "getDynamicResolutions originalWidth originalHeight contentComplexity =
     (let sourcePixels = originalWidth * originalHeight;
          resolutions = map (tier_of contentComplexity)
                          (filter (\<lambda>e. pixels e \<le> sourcePixels) possibleTargets)
      in if length resolutions = 0
         then (case target_baseBitrate ''720p'' of
                 Inl err \<Rightarrow> Inl err
               | Inr base \<Rightarrow>
                   Inr [\<lparr>r_width = originalWidth, r_height = originalHeight,
                         r_bitrate = calculateBitrate originalWidth originalHeight base
                                       contentComplexity,
                         r_crf = 23,
                         r_name = string_of_nat originalHeight @ ''p (source)''\<rparr>])
         else Inr resolutions)"

section \<open>Sprite sheet planning (videoService: generateSpriteSheet)\<close>

text \<open>
  The arithmetic of \<open>generateSpriteSheet\<close> between the probe and the frame extraction:
  the duration guard, the grid, the safe window and the too-short guard, in the order of
  the source. \<open>duration\<close> is the probed \<open>metadata.format.duration || 0\<close>.
\<close>

record SpritePlan =
  rows :: nat
  cols :: nat
  numThumbnails :: nat
  safeStart :: real
  safeEnd :: real
  safeDuration :: real

definition sprite_grid :: "real \<Rightarrow> nat \<times> nat" where
  "sprite_grid duration =
     (if duration > 600 then (8, 10)
      else if duration > 300 then (6, 8)
      else (5, 5))"

definition generateSpriteSheet_plan :: "real \<Rightarrow> error + SpritePlan" where
  "generateSpriteSheet_plan duration =
     (if duration \<le> 0 then Inl (InvalidVideoDuration duration)
      else
        let g = sprite_grid duration;
            start = min (duration * 0.05) 2;
            finish = max (duration * 0.95) (duration - 2);
            span = finish - start
        in if span \<le> 0 then Inl (VideoTooShort duration)
           else Inr \<lparr>rows = fst g, cols = snd g, numThumbnails = fst g * snd g,
                      safeStart = start, safeEnd = finish, safeDuration = span\<rparr>)"

section \<open>Variant playlists and the master manifest (videoService: convertToHLS)\<close>

record VariantPlaylist =
  v_width :: nat
  v_height :: nat
  v_bitrate :: string
  v_resolution :: string
  v_playlist :: string

text \<open>\<open>String.prototype.replace\<close> with a string pattern: the first occurrence only.\<close>

fun replace_first :: "string \<Rightarrow> string \<Rightarrow> string \<Rightarrow> string" where
  "replace_first pat rep [] = (if pat = [] then rep else [])"
| "replace_first pat rep (c # cs) =
     (if take (length pat) (c # cs) = pat then rep @ drop (length pat) (c # cs)
      else c # replace_first pat rep cs)"

text \<open>The record pushed by the \<open>end\<close> handler of a tier's encode.\<close>

definition variant_of :: "Resolution \<Rightarrow> VariantPlaylist" where
  "variant_of r =
     \<lparr>v_width = r_width r, v_height = r_height r, v_bitrate = r_bitrate r,
      v_resolution = string_of_nat (r_width r) @ ''x'' @ string_of_nat (r_height r),
      v_playlist = replace_first '' (source)'' [] (r_name r) @ ''/index.m3u8''\<rparr>"

text \<open>
  The tiers are encoded one after the other; \<open>enc r\<close> is the outcome of creating the
  tier's directory and of the ffmpeg run for tier \<open>r\<close> (\<open>Some e\<close>: it fails with \<open>e\<close>,
  which rejects the awaited promise and leaves the loop).
\<close>

fun encode_tiers ::
  "(Resolution \<Rightarrow> error option) \<Rightarrow> Resolution list \<Rightarrow> VariantPlaylist list
     \<Rightarrow> error + VariantPlaylist list" where
  "encode_tiers enc [] variantPlaylists = Inr variantPlaylists"
| "encode_tiers enc (r # rs) variantPlaylists =
     (case enc r of
        Some e \<Rightarrow> Inl e
      | None \<Rightarrow> encode_tiers enc rs (variantPlaylists @ [variant_of r]))"

text \<open>
  \<open>parseInt(s)\<close> with no radix: leading white space is skipped (here the ASCII white
  space, strings being byte strings), a sign is read, a \<open>0x\<close> prefix selects base 16,
  and the longest prefix of digits is the value; \<open>None\<close> is \<open>NaN\<close>.
\<close>

definition is_space :: "char \<Rightarrow> bool" where
  "is_space c = (c \<in> set [CHR '' '', CHR 0x09, CHR 0x0A, CHR 0x0B, CHR 0x0C, CHR 0x0D])"

definition digit_val :: "nat \<Rightarrow> char \<Rightarrow> nat option" where
  "digit_val radix c =
     (case map_of (zip ''0123456789abcdef'' [0 ..< 16] @ zip ''ABCDEF'' [10 ..< 16]) c of
        None \<Rightarrow> None
      | Some v \<Rightarrow> if v < radix then Some v else None)"

definition digits_value :: "nat \<Rightarrow> string \<Rightarrow> nat" where
  "digits_value radix z =
     foldl (\<lambda>acc c. acc * radix + (case digit_val radix c of Some v \<Rightarrow> v | None \<Rightarrow> 0)) 0 z"

definition parseInt :: "string \<Rightarrow> int option" where
  "parseInt s =
     (let s1 = dropWhile is_space s;
          negative = (take 1 s1 = ''-'');
          s2 = (if take 1 s1 = ''-'' \<or> take 1 s1 = ''+'' then drop 1 s1 else s1);
          hex = (take 2 s2 = ''0x'' \<or> take 2 s2 = ''0X'');
          radix = (if hex then 16 else 10);
          s3 = (if hex then drop 2 s2 else s2);
          z = takeWhile (\<lambda>c. digit_val radix c \<noteq> None) s3
      in if z = [] then None
         else Some ((if negative then - 1 else 1) * int (digits_value radix z)))"

text \<open>\<open>parseInt(variant.bitrate) * 1000\<close>, as the template literal prints it.\<close>

definition bandwidth_text :: "string \<Rightarrow> string" where
  "bandwidth_text bitrate =
     (case parseInt bitrate of None \<Rightarrow> ''NaN'' | Some n \<Rightarrow> string_of_int (n * 1000))"

definition stream_inf :: "VariantPlaylist \<Rightarrow> string" where
  "stream_inf variant =
     ''#EXT-X-STREAM-INF:BANDWIDTH='' @ bandwidth_text (v_bitrate variant)
       @ '',RESOLUTION='' @ v_resolution variant"

text \<open>\<open>Array.prototype.join\<close>.\<close>

fun join :: "string \<Rightarrow> string list \<Rightarrow> string" where
  "join sep [] = []"
| "join sep [x] = x"
| "join sep (x # y # ys) = x @ sep @ join sep (y # ys)"

definition newline :: string where
  "newline = [CHR 0x0A]"

definition masterPlaylistContent :: "VariantPlaylist list \<Rightarrow> string" where
  "masterPlaylistContent variantPlaylists =
     join newline (map (\<lambda>variant. stream_inf variant @ newline @ v_playlist variant)
                     variantPlaylists)"

text \<open>The text written to \<open>master.m3u8\<close>.\<close>

definition masterPlaylist :: "VariantPlaylist list \<Rightarrow> string" where
  "masterPlaylist variantPlaylists =
     ''#EXTM3U'' @ newline @ masterPlaylistContent variantPlaylists"

section \<open>The local file tree\<close>

text \<open>
  A directory listing (\<open>readdirSync\<close> with \<open>withFileTypes\<close>) is a list of entries:
  \<open>Dir\<close> is an entry whose \<open>isDirectory()\<close> holds, with its own listing; \<open>File\<close> is
  any other entry. Entry names hold no separator, so \<open>path.join\<close> is concatenation
  with a slash, and \<open>path.relative base p\<close>, for \<open>p\<close> below \<open>base\<close>, drops the base and
  the slash after it.
\<close>

datatype fsnode = File string | Dir string "fsnode list"

definition path_join :: "string \<Rightarrow> string \<Rightarrow> string" where
  "path_join dir name = dir @ ''/'' @ name"

definition path_relative :: "string \<Rightarrow> string \<Rightarrow> string" where
  "path_relative base p = drop (length base + 1) p"

definition endsWith :: "string \<Rightarrow> string \<Rightarrow> bool" where
  "endsWith s suffix =
     (length suffix \<le> length s \<and> drop (length s - length suffix) s = suffix)"

datatype log_entry =
    LogInfo string            \<comment> \<open>\<open>logger.info(text)\<close>\<close>
  | LogError string error     \<comment> \<open>\<open>logger.error(text + ': ' + err.message)\<close>\<close>

section \<open>Upload coordinator (videoService: uploadHlsFilesToS3)\<close>

text \<open>The inner \<open>readDir\<close>: the files below \<open>dir\<close>, in listing order, depth first.\<close>

fun readDir :: "string \<Rightarrow> fsnode list \<Rightarrow> string list" where
  "readDir dir [] = []"
| "readDir dir (File name # items) = path_join dir name # readDir dir items"
| "readDir dir (Dir name sub # items) = readDir (path_join dir name) sub @ readDir dir items"

text \<open>The parameters of one \<open>s3.upload\<close> call (the bucket is a fixed setting).\<close>

record upload_params =
  Key :: string
  Body :: string
  ContentType :: string

definition upload_request :: "string \<Rightarrow> string \<Rightarrow> string \<Rightarrow> upload_params" where
  "upload_request hlsOutputDir objectId filePath =
     \<lparr>Key = ''courses/chapters/videos/'' @ objectId @ ''/''
              @ path_relative hlsOutputDir filePath,
      Body = filePath,
      ContentType = (if endsWith filePath ''.m3u8'' then ''application/x-mpegURL''
                     else ''video/MP2T'')\<rparr>"

text \<open>
  One task per file is queued on a limiter of width 5. The limiter starts the next task
  whenever one settles, whatever its outcome, so every request is issued; \<open>Promise.all\<close>
  rejects as soon as one task rejects. \<open>s3\<close> is the gateway's answer to a request
  (\<open>Some e\<close>: the upload fails with \<open>e\<close>). The order in which uploads settle is not
  modelled: of several failures, the one reported is the first in file order. The walk
  is over the listing \<open>items\<close> of the output directory, which the run has just
  written; its reads are taken to succeed.
\<close>

record upload_run =
  calls :: "upload_params list"
  outcome :: "error + unit"

definition uploadHlsFilesToS3 ::
  "(upload_params \<Rightarrow> error option) \<Rightarrow> fsnode list \<Rightarrow> string \<Rightarrow> string \<Rightarrow> upload_run" where
  "uploadHlsFilesToS3 s3 items hlsOutputDir objectId =
     (let files = readDir hlsOutputDir items;
          requests = map (upload_request hlsOutputDir objectId) files
      in \<lparr>calls = requests,
          outcome = (case List.map_filter s3 requests of
                       [] \<Rightarrow> Inr ()
                     | e # _ \<Rightarrow> Inl e)\<rparr>)"

text \<open>The number of files of a tree, counted entry by entry.\<close>

fun count_files :: "fsnode list \<Rightarrow> nat" where
  "count_files [] = 0"
| "count_files (File name # items) = Suc (count_files items)"
| "count_files (Dir name sub # items) = count_files sub + count_files items"

section \<open>Directory cleanup (videoService: cleanupDirectory)\<close>

text \<open>
  The file-system calls of the cleanup may fail; \<open>fs_faults\<close> says which, by path
  (\<open>Some e\<close>: the call throws \<open>e\<close>). Besides these faults \<open>readdirSync\<close> throws on a
  path that is not a directory and \<open>rmdirSync\<close> throws on a directory that still has
  entries.
\<close>

record fs_faults =
  readdir_error :: "string \<Rightarrow> error option"
  unlink_error :: "string \<Rightarrow> error option"
  rmdir_error :: "string \<Rightarrow> error option"

definition rmdirSync :: "fs_faults \<Rightarrow> string \<Rightarrow> fsnode list \<Rightarrow> error option" where
  "rmdirSync F dirPath remaining =
     (if remaining \<noteq> [] then Some (External ''ENOTEMPTY'') else rmdir_error F dirPath)"

text \<open>
  \<open>cleanupDirectory F dirPath removeDir node\<close>: \<open>node\<close> is what stands at \<open>dirPath\<close>
  (\<open>None\<close>: nothing, \<open>existsSync\<close> is false). The result is what stands there afterwards,
  the lines logged, and the exception that leaves the function (\<open>None\<close>: it returns).
  \<open>cleanupDirectory_try\<close> is the body of the outer \<open>try\<close>, \<open>cleanup_items\<close> its loop over
  the listing; an exception leaving the recursive call would leave the loop too.
\<close>

fun cleanupDirectory ::
    "fs_faults \<Rightarrow> string \<Rightarrow> bool \<Rightarrow> fsnode option
       \<Rightarrow> fsnode option \<times> log_entry list \<times> error option"
  and cleanupDirectory_try ::
    "fs_faults \<Rightarrow> string \<Rightarrow> bool \<Rightarrow> fsnode
       \<Rightarrow> fsnode option \<times> log_entry list \<times> error option"
  and cleanup_items ::
    "fs_faults \<Rightarrow> string \<Rightarrow> fsnode list \<Rightarrow> fsnode list \<times> log_entry list \<times> error option"
where
  "cleanupDirectory F dirPath removeDir None = (None, [], None)"
| "cleanupDirectory F dirPath removeDir (Some node) =
     (case cleanupDirectory_try F dirPath removeDir node of
        (node', logged, None) \<Rightarrow> (node', logged, None)
      | (node', logged, Some err) \<Rightarrow>
          (node', logged @ [LogError (''Error during directory cleanup of '' @ dirPath) err],
           None))"
| "cleanupDirectory_try F dirPath removeDir (File name) =
     (Some (File name), [], Some (External ''ENOTDIR''))"
| "cleanupDirectory_try F dirPath removeDir (Dir name items) =
     (case readdir_error F dirPath of
        Some err \<Rightarrow> (Some (Dir name items), [], Some err)
      | None \<Rightarrow>
         (case cleanup_items F dirPath items of
            (remaining, logged, Some err) \<Rightarrow> (Some (Dir name remaining), logged, Some err)
          | (remaining, logged, None) \<Rightarrow>
              if removeDir then
                (case rmdirSync F dirPath remaining of
                   None \<Rightarrow> (None, logged @ [LogInfo (''Deleted directory: '' @ dirPath)], None)
                 | Some err \<Rightarrow>
                     (Some (Dir name remaining),
                      logged @ [LogError (''Failed to delete directory '' @ dirPath) err], None))
              else (Some (Dir name remaining), logged, None)))"
| "cleanup_items F dirPath [] = ([], [], None)"
| "cleanup_items F dirPath (File name # items) =
     (let fullPath = path_join dirPath name;
          (kept, line) =
            (case unlink_error F fullPath of
               None \<Rightarrow> ([], LogInfo (''Deleted file: '' @ fullPath))
             | Some err \<Rightarrow> ([File name], LogError (''Failed to delete file '' @ fullPath) err))
      in case cleanup_items F dirPath items of
           (remaining, logged, thrown) \<Rightarrow> (kept @ remaining, line # logged, thrown))"
| "cleanup_items F dirPath (Dir name sub # items) =
     (case cleanupDirectory F (path_join dirPath name) True (Some (Dir name sub)) of
        (node', logged, Some err) \<Rightarrow> (option.case_option [] (\<lambda>n. [n]) node' @ items, logged, Some err)
      | (node', logged, None) \<Rightarrow>
          (case cleanup_items F dirPath items of
             (remaining, logged', thrown) \<Rightarrow>
               (option.case_option [] (\<lambda>n. [n]) node' @ remaining, logged @ logged', thrown)))"

text \<open>
  What the cleanup of a listing reaches, to state what it must log: the files of the
  listing and of every subdirectory below it whose own listing can be read
  (\<open>reached_files\<close>), and the subdirectories it enters (\<open>reached_dirs\<close>); both are paths.
\<close>

fun reached_files :: "fs_faults \<Rightarrow> string \<Rightarrow> fsnode list \<Rightarrow> string list" where
  "reached_files F dir [] = []"
| "reached_files F dir (File name # items) = path_join dir name # reached_files F dir items"
| "reached_files F dir (Dir name sub # items) =
     (if readdir_error F (path_join dir name) = None
      then reached_files F (path_join dir name) sub else [])
     @ reached_files F dir items"

fun reached_dirs :: "fs_faults \<Rightarrow> string \<Rightarrow> fsnode list \<Rightarrow> string list" where
  "reached_dirs F dir [] = []"
| "reached_dirs F dir (File name # items) = reached_dirs F dir items"
| "reached_dirs F dir (Dir name sub # items) =
     path_join dir name
     # (if readdir_error F (path_join dir name) = None
        then reached_dirs F (path_join dir name) sub else [])
     @ reached_dirs F dir items"

text \<open>
  The fate of a directory at path \<open>p\<close> is on the log \<open>lines\<close>: its listing could not be
  read and that error is logged; or it was removed and that is logged; or its removal
  failed and the error of \<open>rmdirSync\<close> is logged.
\<close>

definition dir_fate_logged :: "fs_faults \<Rightarrow> string \<Rightarrow> log_entry list \<Rightarrow> bool" where
  "dir_fate_logged F p lines =
     (case readdir_error F p of
        Some err \<Rightarrow> LogError (''Error during directory cleanup of '' @ p) err \<in> set lines
      | None \<Rightarrow>
          (LogInfo (''Deleted directory: '' @ p) \<in> set lines \<and> rmdir_error F p = None)
          \<or> LogError (''Failed to delete directory '' @ p) (External ''ENOTEMPTY'') \<in> set lines
          \<or> (\<exists>err. rmdir_error F p = Some err
                 \<and> LogError (''Failed to delete directory '' @ p) err \<in> set lines))"

section \<open>Job orchestrator and status register (videoService: convertToHLS, getConversionStatus)\<close>

text \<open>
  The answers of the collaborators during one run: \<open>Some e\<close> (or \<open>Inl e\<close>) is a call that
  fails with \<open>e\<close>. \<open>mkdir_hls\<close> is the creation of the HLS output directory,
  \<open>thumbnail\<close> the thumbnail with its upload, \<open>sprite\<close> the sprite sheet generator,
  \<open>probe\<close> is \<open>getVideoResolution\<close>, \<open>encode\<close> a tier's directory and ffmpeg run,
  \<open>write_manifest\<close> the write of \<open>master.m3u8\<close>, \<open>hls_items\<close> the listing of the output
  directory when the upload starts, \<open>s3_upload\<close> the gateway, \<open>cleanup\<close> the removal of the
  working files after success and \<open>final_cleanup\<close> the one of the \<open>finally\<close> block.
\<close>

record env =
  cwd :: string
  mkdir_hls :: "error option"
  thumbnail :: "error option"
  sprite :: "error option"
  probe :: "error + (nat \<times> nat)"
  encode :: "Resolution \<Rightarrow> error option"
  write_manifest :: "string \<Rightarrow> error option"
  hls_items :: "fsnode list"
  s3_upload :: "upload_params \<Rightarrow> error option"
  cleanup :: "error option"
  final_cleanup :: "error option"

text \<open>
  The state of the process: the status register \<open>conversionStatus\<close> (a \<open>Map\<close> from
  object id to phase), the files written, the uploads issued and the log. \<open>history\<close>
  records every write to the register in order; the source keeps no such list, it is
  what an observer polling \<open>getConversionStatus\<close> can see over time.
\<close>

record state =
  conversionStatus :: "string \<rightharpoonup> string"
  history :: "(string \<times> string) list"
  written :: "(string \<times> string) list"
  uploaded :: "upload_params list"
  logged :: "log_entry list"

definition getConversionStatus :: "state \<Rightarrow> string \<Rightarrow> string option" where
  "getConversionStatus s objectId = conversionStatus s objectId"

definition set_status :: "string \<Rightarrow> string \<Rightarrow> state \<Rightarrow> state" where
  "set_status objectId p s =
     s\<lparr>conversionStatus := (conversionStatus s)(objectId \<mapsto> p),
       history := history s @ [(objectId, p)]\<rparr>"

definition log_swallowed :: "string \<Rightarrow> error option \<Rightarrow> state \<Rightarrow> state" where
  "log_swallowed text failure s =
     (case failure of
        None \<Rightarrow> s
      | Some err \<Rightarrow> s\<lparr>logged := logged s @ [LogError text err]\<rparr>)"

definition UPLOADS_DIR :: "env \<Rightarrow> string" where
  "UPLOADS_DIR E = path_join (cwd E) ''uploads''"

text \<open>The body of the outer \<open>try\<close>; the second component is the exception that leaves it.\<close>

definition convertToHLS_try :: "env \<Rightarrow> string \<Rightarrow> state \<Rightarrow> state \<times> error option" where
  "convertToHLS_try E objectId s0 =
     (let hlsOutputDir = path_join (path_join (UPLOADS_DIR E) ''hls'') objectId in
      case mkdir_hls E of
        Some err \<Rightarrow> (s0, Some err)
      | None \<Rightarrow>
     (let s1 = log_swallowed ''Thumbnail creation/upload failed, continuing with conversion''
                 (thumbnail E) s0;
          s2 = log_swallowed ''Sprite sheet generation failed, continuing with conversion''
                 (sprite E) s1 in
      case probe E of
        Inl err \<Rightarrow> (s2, Some err)
      | Inr (originalWidth, originalHeight) \<Rightarrow>
     (case getDynamicResolutions originalWidth originalHeight 1 of
        Inl err \<Rightarrow> (s2, Some err)
      | Inr resolutions \<Rightarrow>
     (case encode_tiers (encode E) resolutions [] of
        Inl err \<Rightarrow> (s2, Some err)
      | Inr variantPlaylists \<Rightarrow>
     (let masterPlaylistPath = path_join hlsOutputDir ''master.m3u8'';
          content = masterPlaylist variantPlaylists in
      case write_manifest E content of
        Some err \<Rightarrow> (s2, Some err)
      | None \<Rightarrow>
     (let s3 = s2\<lparr>written := written s2 @ [(masterPlaylistPath, content)]\<rparr>;
          s4 = set_status objectId ''uploading'' s3;
          up = uploadHlsFilesToS3 (s3_upload E) (hls_items E) hlsOutputDir objectId;
          s5 = s4\<lparr>uploaded := uploaded s4 @ calls up\<rparr> in
      case outcome up of
        Inl err \<Rightarrow> (s5, Some err)
      | Inr _ \<Rightarrow>
     (let s6 = set_status objectId ''completed'' s5;
          s7 = log_swallowed ''Error during cleanup'' (cleanup E) s6
      in (s7, None))))))))"

text \<open>
  \<open>convertToHLS\<close>: the register is set to \<open>converting\<close>, the body runs, the \<open>catch\<close>
  sets \<open>error\<close> and throws the same error again, and the \<open>finally\<close> block only logs.
\<close>

definition convertToHLS :: "env \<Rightarrow> string \<Rightarrow> state \<Rightarrow> state \<times> (error + unit)" where
  "convertToHLS E objectId s =
     (let s1 = set_status objectId ''converting'' s;
          (s2, thrown) = convertToHLS_try E objectId s1;
          (s3, result) =
            (case thrown of
               Some err \<Rightarrow> (set_status objectId ''error'' s2, Inl err)
             | None \<Rightarrow> (s2, Inr ()))
      in (log_swallowed ''Final cleanup attempt failed'' (final_cleanup E) s3, result))"

text \<open>The phases a run wrote to the register, given the state before and after.\<close>

definition phases_written :: "state \<Rightarrow> state \<Rightarrow> (string \<times> string) list" where
  "phases_written s s' = drop (length (history s)) (history s')"

text \<open>
  The order of the phases along the successful path; \<open>error\<close> stands after all of them,
  since nothing is written after it.
\<close>

definition phase_rank :: "string \<Rightarrow> nat" where
  "phase_rank p =
     (if p = ''converting'' then 0 else if p = ''uploading'' then 1
      else if p = ''completed'' then 2 else 3)"

text \<open>
  A run to try the model on: every collaborator answers without error, the source is
  1920 by 1080, the output directory holds the manifest and one tier, and the process
  has just started.
\<close>

definition example_env :: env where
  "example_env =
     \<lparr>cwd = ''/app'', mkdir_hls = None, thumbnail = None, sprite = None,
      probe = Inr (1920, 1080), encode = (\<lambda>r. None), write_manifest = (\<lambda>c. None),
      hls_items = [File ''master.m3u8'', Dir ''1080p'' [File ''index.m3u8'', File ''index0.ts'']],
      s3_upload = (\<lambda>p. None), cleanup = None, final_cleanup = None\<rparr>"

definition example_state :: state where
  "example_state =
     \<lparr>conversionStatus = Map.empty, history = [], written = [], uploaded = [], logged = []\<rparr>"

section \<open>The sprite sheet window and grid\<close>

lemma safe_span_eq:
  fixes d :: real
  shows "max (d * 0.95) (d - 2) - min (d * 0.05) 2 = (if d \<le> 40 then 0.9 * d else d - 4)"
  by (simp add: max_def min_def)

lemma safe_span_pos:
  fixes d :: real
  assumes "0 < d"
  shows "0 < max (d * 0.95) (d - 2) - min (d * 0.05) 2"
  using assms by (simp add: safe_span_eq)

lemma generateSpriteSheet_plan_pos:
  assumes "0 < d"
  shows "generateSpriteSheet_plan d =
           Inr \<lparr>rows = fst (sprite_grid d), cols = snd (sprite_grid d),
                 numThumbnails = fst (sprite_grid d) * snd (sprite_grid d),
                 safeStart = min (d * 0.05) 2, safeEnd = max (d * 0.95) (d - 2),
                 safeDuration = max (d * 0.95) (d - 2) - min (d * 0.05) 2\<rparr>"
proof -
  have a: "\<not> d \<le> 0" using assms by simp
  have b: "\<not> (max (d * 0.95) (d - 2) - min (d * 0.05) 2 \<le> 0)"
    using safe_span_pos [OF assms] by (simp only: not_le)
  show ?thesis
    unfolding generateSpriteSheet_plan_def Let_def by (simp only: a b if_False)
qed

text \<open>
  Claim C4. For every probed duration \<open>d > 0\<close> the sprite sheet generator computes
  \<open>start = min (0.05 * d) 2\<close>, \<open>end = max (0.95 * d) (d - 2)\<close> and \<open>span = end - start\<close>,
  and fails with the too-short error exactly when \<open>span \<le> 0\<close>; for \<open>d = 100\<close> it goes on
  with start 2, end 98 and span 96.
\<close>

theorem sprite_window_too_short_iff:
  fixes d :: real
  assumes "0 < d"
  shows "generateSpriteSheet_plan d =
           (let start = min (0.05 * d) 2;
                finish = max (0.95 * d) (d - 2);
                span = finish - start
            in if span \<le> 0 then Inl (VideoTooShort d)
               else Inr \<lparr>rows = fst (sprite_grid d), cols = snd (sprite_grid d),
                          numThumbnails = fst (sprite_grid d) * snd (sprite_grid d),
                          safeStart = start, safeEnd = finish, safeDuration = span\<rparr>)
         \<and> ((generateSpriteSheet_plan d = Inl (VideoTooShort d))
              = (max (0.95 * d) (d - 2) - min (0.05 * d) 2 \<le> 0))
         \<and> generateSpriteSheet_plan 100 =
             Inr \<lparr>rows = 5, cols = 5, numThumbnails = 25,
                   safeStart = 2, safeEnd = 98, safeDuration = 96\<rparr>"
proof -
  have guard: "\<not> d \<le> 0" using assms by simp
  have c1: "0.05 * d = d * 0.05" by simp
  have c2: "0.95 * d = d * 0.95" by simp
  have eq: "generateSpriteSheet_plan d =
           (let start = min (0.05 * d) 2;
                finish = max (0.95 * d) (d - 2);
                span = finish - start
            in if span \<le> 0 then Inl (VideoTooShort d)
               else Inr \<lparr>rows = fst (sprite_grid d), cols = snd (sprite_grid d),
                          numThumbnails = fst (sprite_grid d) * snd (sprite_grid d),
                          safeStart = start, safeEnd = finish, safeDuration = span\<rparr>)"
    unfolding generateSpriteSheet_plan_def Let_def c1 c2 by (simp only: guard if_False)
  have iff: "(generateSpriteSheet_plan d = Inl (VideoTooShort d))
              = (max (0.95 * d) (d - 2) - min (0.05 * d) 2 \<le> 0)"
  proof (cases "max (0.95 * d) (d - 2) - min (0.05 * d) 2 \<le> 0")
    case True
    then show ?thesis unfolding eq Let_def by (simp only: if_True simp_thms)
  next
    case False
    then show ?thesis unfolding eq Let_def by (simp only: if_False sum.distinct simp_thms)
  qed
  have at100: "generateSpriteSheet_plan 100 =
             Inr \<lparr>rows = 5, cols = 5, numThumbnails = 25,
                   safeStart = 2, safeEnd = 98, safeDuration = 96\<rparr>"
    by (simp add: generateSpriteSheet_plan_def sprite_grid_def Let_def)
  from eq iff at100 show ?thesis by blast
qed

text \<open>The statement of C4 at \<open>d = 100\<close>.\<close>

theorem sprite_window_too_short_iff_witness:
  "(0::real) < 100
   \<and> generateSpriteSheet_plan 100 =
       Inr \<lparr>rows = 5, cols = 5, numThumbnails = 25, safeStart = 2, safeEnd = 98, safeDuration = 96\<rparr>
   \<and> \<not> (max (0.95 * 100) (100 - 2) - min (0.05 * 100) 2 \<le> (0::real))
   \<and> generateSpriteSheet_plan 100 \<noteq> Inl (VideoTooShort 100)"
proof -
  have h: "(0::real) < 100" by simp
  have nz: "\<not> (max (0.95 * 100) (100 - 2) - min (0.05 * 100) 2 \<le> (0::real))" by simp
  from sprite_window_too_short_iff [OF h] nz h show ?thesis by (simp add: sprite_grid_def)
qed

text \<open>
  Claim C5. The grid depends on the duration alone: 8 rows by 10 columns above 600
  seconds, else 6 by 8 above 300 seconds, else 5 by 5; so 120 s gives 25 frames, 400 s
  gives 48 and 900 s gives 80.
\<close>

theorem sprite_grid_by_duration:
  fixes d :: real
  assumes "0 < d"
  shows "(\<exists>p. generateSpriteSheet_plan d = Inr p
            \<and> (rows p, cols p) =
                (if d > 600 then (8, 10) else if d > 300 then (6, 8) else (5, 5))
            \<and> numThumbnails p = rows p * cols p)
         \<and> map_sum id numThumbnails (generateSpriteSheet_plan 120) = Inr 25
         \<and> map_sum id numThumbnails (generateSpriteSheet_plan 400) = Inr 48
         \<and> map_sum id numThumbnails (generateSpriteSheet_plan 900) = Inr 80"
proof -
  have a: "\<exists>p. generateSpriteSheet_plan d = Inr p
            \<and> (rows p, cols p) =
                (if d > 600 then (8, 10) else if d > 300 then (6, 8) else (5, 5))
            \<and> numThumbnails p = rows p * cols p"
    by (simp add: generateSpriteSheet_plan_pos [OF assms] sprite_grid_def)
  have b: "map_sum id numThumbnails (generateSpriteSheet_plan 120) = Inr 25"
    by (simp add: generateSpriteSheet_plan_pos sprite_grid_def)
  have c: "map_sum id numThumbnails (generateSpriteSheet_plan 400) = Inr 48"
    by (simp add: generateSpriteSheet_plan_pos sprite_grid_def)
  have e: "map_sum id numThumbnails (generateSpriteSheet_plan 900) = Inr 80"
    by (simp add: generateSpriteSheet_plan_pos sprite_grid_def)
  from a b c e show ?thesis by blast
qed

text \<open>The statement of C5 at \<open>d = 400\<close>.\<close>

theorem sprite_grid_by_duration_witness:
  "(0::real) < 400
   \<and> generateSpriteSheet_plan 400 =
       Inr \<lparr>rows = 6, cols = 8, numThumbnails = 48, safeStart = 2, safeEnd = 398, safeDuration = 396\<rparr>
   \<and> (\<exists>p. generateSpriteSheet_plan 400 = Inr p \<and> (rows p, cols p) = (6, 8) \<and> numThumbnails p = 48)"
proof -
  have h: "(0::real) < 400" by simp
  have v: "generateSpriteSheet_plan 400 =
       Inr \<lparr>rows = 6, cols = 8, numThumbnails = 48, safeStart = 2, safeEnd = 398, safeDuration = 396\<rparr>"
    by (simp add: generateSpriteSheet_plan_def sprite_grid_def Let_def)
  from sprite_grid_by_duration [OF h] obtain p where
    "generateSpriteSheet_plan 400 = Inr p" "(rows p, cols p) = (6, 8)" "numThumbnails p = rows p * cols p"
    by auto
  then show ?thesis using h v by auto
qed

text \<open>
  Claim C10. Past the duration guard (\<open>d > 0\<close>) the span of the safe window is
  \<open>0.9 * d\<close> when \<open>d \<le> 40\<close> and \<open>d - 4\<close> when \<open>d > 40\<close>, hence positive: the
  too-short branch is never taken.
\<close>

theorem sprite_span_positive:
  fixes d :: real
  assumes "0 < d"
  shows "(\<exists>p. generateSpriteSheet_plan d = Inr p
            \<and> safeDuration p = (if d \<le> 40 then 0.9 * d else d - 4)
            \<and> 0 < safeDuration p)
         \<and> generateSpriteSheet_plan d \<noteq> Inl (VideoTooShort d)"
  using assms safe_span_pos [OF assms]
  by (simp add: generateSpriteSheet_plan_pos [OF assms] safe_span_eq)

text \<open>The statement of C10 at \<open>d = 30\<close>.\<close>

theorem sprite_span_positive_witness:
  "(0::real) < 30
   \<and> (\<exists>p. generateSpriteSheet_plan 30 = Inr p \<and> safeDuration p = 27 \<and> 0 < safeDuration p)
   \<and> generateSpriteSheet_plan 30 \<noteq> Inl (VideoTooShort 30)"
proof -
  have h: "(0::real) < 30" by simp
  from sprite_span_positive [OF h] show ?thesis by simp
qed

section \<open>The resolution planner\<close>

lemma possibleTargets_eq: "possibleTargets = resolutionTargets"
  by (simp add: possibleTargets_def resolutionTargets_def sort_key_def pixels_def)

lemmas planner_eval =
  getDynamicResolutions_def possibleTargets_eq resolutionTargets_def pixels_def
  target_baseBitrate_def calculateBitrate_def Math_round_def string_of_int_def
  string_of_nat.simps digit_char_def tier_of_def Let_def

lemma catalog_pixels:
  "map pixels resolutionTargets = [8294400, 3686400, 2073600, 921600, 409920]"
  by (simp add: resolutionTargets_def pixels_def)

lemma catalog_Min: "Min (pixels ` set resolutionTargets) = 409920"
proof -
  have "pixels ` set resolutionTargets = set (map pixels resolutionTargets)" by simp
  also have "\<dots> = {8294400, 3686400, 2073600, 921600, 409920}"
    unfolding catalog_pixels by simp
  finally show ?thesis by simp
qed

lemma catalog_names: "map fst resolutionTargets = [''2160p'', ''1440p'', ''1080p'', ''720p'', ''480p'']"
  by (simp add: resolutionTargets_def)

lemma catalog_descending: "sorted_wrt (\<lambda>a b. pixels b < pixels a) resolutionTargets"
  by (simp add: resolutionTargets_def pixels_def)

lemma catalog_distinct: "distinct (map fst resolutionTargets)"
  unfolding catalog_names by simp

lemma sorted_wrt_filter_keep: "sorted_wrt R xs \<Longrightarrow> sorted_wrt R (filter P xs)"
  by (induction xs) auto

lemma no_tier_fits:
  assumes "w * h < Min (pixels ` set resolutionTargets)"
  shows "filter (\<lambda>e. pixels e \<le> w * h) resolutionTargets = []"
proof -
  have "\<forall>e \<in> set resolutionTargets. w * h < pixels e"
    using assms by (simp add: resolutionTargets_def)
  then show ?thesis by (auto simp: filter_empty_conv)
qed

lemma some_tier_fits:
  assumes "Min (pixels ` set resolutionTargets) \<le> w * h"
  shows "filter (\<lambda>e. pixels e \<le> w * h) resolutionTargets \<noteq> []"
proof -
  have "(''480p'', \<lparr>width = 854, height = 480, baseBitrate = 1000, crf = 23\<rparr>) \<in> set resolutionTargets"
    by (simp add: resolutionTargets_def)
  moreover have "pixels (''480p'', \<lparr>width = 854, height = 480, baseBitrate = 1000, crf = 23\<rparr>) \<le> w * h"
    using assms unfolding catalog_Min by (simp add: pixels_def)
  ultimately show ?thesis by (auto simp: filter_empty_conv)
qed

lemma target_720p: "target_baseBitrate ''720p'' = Inr 2500"
  by (simp add: target_baseBitrate_def resolutionTargets_def)

text \<open>
  Claim C1, as amended. When the source pixel count is smaller than that of every
  catalog tier, the planner returns exactly one tier: the source's own width and height,
  crf 23, the name \<open>{height}p (source)\<close>, and the bitrate of the standard formula
  on the base bitrate of the 720p entry (2500).
\<close>

theorem planner_source_fallback:
  assumes "w * h < Min (pixels ` set resolutionTargets)"
  shows "getDynamicResolutions w h c =
           Inr [\<lparr>r_width = w, r_height = h, r_bitrate = calculateBitrate w h 2500 c,
                 r_crf = 23, r_name = string_of_nat h @ ''p (source)''\<rparr>]
         \<and> target_baseBitrate ''720p'' = Inr 2500"
  unfolding getDynamicResolutions_def possibleTargets_eq Let_def
  by (simp add: no_tier_fits [OF assms] target_720p)

text \<open>
  The amended C1 at a 640 by 360 source.
\<close>

theorem planner_source_fallback_witness:
  "(640::nat) * 360 < Min (pixels ` set resolutionTargets)
   \<and> getDynamicResolutions 640 360 1 =
       Inr [\<lparr>r_width = 640, r_height = 360, r_bitrate = ''278k'', r_crf = 23,
             r_name = ''360p (source)''\<rparr>]"
proof -
  have h: "(640::nat) * 360 < Min (pixels ` set resolutionTargets)"
    unfolding catalog_Min by simp
  have b: "calculateBitrate 640 360 2500 1 = ''278k''"
    by (simp add: planner_eval)
  have n: "string_of_nat 360 = ''360''"
    by (simp add: planner_eval)
  from planner_source_fallback [OF h, of 1] h b n show ?thesis by simp
qed

text \<open>
  Claim C1 as stated fails: for a 640 by 360 source, smaller than every tier, the base
  bitrate of the smallest entry (480p, 1000) would give \<open>111k\<close>, and the planner
  returns \<open>278k\<close>.
\<close>

theorem planner_fallback_480p_counterexample:
  "map pixels resolutionTargets = [8294400, 3686400, 2073600, 921600, 409920]
   \<and> (640::nat) * 360 < 409920
   \<and> target_baseBitrate ''480p'' = Inr 1000
   \<and> calculateBitrate 640 360 1000 1 = ''111k''
   \<and> getDynamicResolutions 640 360 1 =
       Inr [\<lparr>r_width = 640, r_height = 360, r_bitrate = ''278k'', r_crf = 23,
             r_name = ''360p (source)''\<rparr>]
   \<and> getDynamicResolutions 640 360 1 \<noteq>
       Inr [\<lparr>r_width = 640, r_height = 360, r_bitrate = calculateBitrate 640 360 1000 1,
             r_crf = 23, r_name = ''360p (source)''\<rparr>]"
proof -
  have a: "target_baseBitrate ''480p'' = Inr 1000"
    by (simp add: target_baseBitrate_def resolutionTargets_def)
  have b: "calculateBitrate 640 360 1000 1 = ''111k''"
    by (simp add: planner_eval)
  have c: "getDynamicResolutions 640 360 1 =
       Inr [\<lparr>r_width = 640, r_height = 360, r_bitrate = ''278k'', r_crf = 23,
             r_name = ''360p (source)''\<rparr>]"
    by (simp add: planner_eval)
  show ?thesis unfolding c b using a catalog_pixels by simp
qed

text \<open>
  Claim C3, as amended. Whenever at least one catalog tier fits the source (its pixel
  count is at most the source's), the planner returns, for every complexity factor,
  exactly the fitting catalog tiers, each with the name, the dimensions and the crf of
  the catalog, in strictly descending order of pixel count and with no name twice. At
  complexity factor 1 each tier carries the bitrate
  \<open>round (baseBitrate * (tierW * tierH) / (1920 * 1080) * 1)\<close> followed by \<open>k\<close>; a
  1280 by 720 tier of base bitrate 2500 has bitrate \<open>1111k\<close>.
\<close>

theorem planner_catalog_tiers:
  assumes "Min (pixels ` set resolutionTargets) \<le> w * h"
  shows "(\<exists>rs. getDynamicResolutions w h c = Inr rs
            \<and> map (\<lambda>r. (r_name r, r_width r, r_height r, r_crf r)) rs =
                map (\<lambda>e. (fst e, width (snd e), height (snd e), crf (snd e)))
                  (filter (\<lambda>e. pixels e \<le> w * h) resolutionTargets))
         \<and> getDynamicResolutions w h 1 =
             Inr (map (\<lambda>e. \<lparr>r_width = width (snd e), r_height = height (snd e),
                             r_bitrate =
                               string_of_int
                                 (Math_round (of_nat (baseBitrate (snd e))
                                    * (of_nat (width (snd e) * height (snd e)) / (1920 * 1080))
                                    * 1)) @ ''k'',
                             r_crf = crf (snd e), r_name = fst e\<rparr>)
                    (filter (\<lambda>e. pixels e \<le> w * h) resolutionTargets))
         \<and> sorted_wrt (\<lambda>a b. pixels b < pixels a)
             (filter (\<lambda>e. pixels e \<le> w * h) resolutionTargets)
         \<and> distinct (map fst (filter (\<lambda>e. pixels e \<le> w * h) resolutionTargets))
         \<and> calculateBitrate 1280 720 2500 1 = ''1111k''"
proof -
  let ?fit = "filter (\<lambda>e. pixels e \<le> w * h) resolutionTargets"
  have tier: "tier_of 1 = (\<lambda>e. \<lparr>r_width = width (snd e), r_height = height (snd e),
                             r_bitrate =
                               string_of_int
                                 (Math_round (of_nat (baseBitrate (snd e))
                                    * (of_nat (width (snd e) * height (snd e)) / (1920 * 1080))
                                    * 1)) @ ''k'',
                             r_crf = crf (snd e), r_name = fst e\<rparr>)"
    by (rule ext) (simp add: tier_of_def calculateBitrate_def Let_def)
  have run: "getDynamicResolutions w h k = Inr (map (tier_of k) ?fit)" for k
    unfolding getDynamicResolutions_def possibleTargets_eq Let_def
    using some_tier_fits [OF assms] by simp
  have shape: "\<exists>rs. getDynamicResolutions w h c = Inr rs
            \<and> map (\<lambda>r. (r_name r, r_width r, r_height r, r_crf r)) rs =
                map (\<lambda>e. (fst e, width (snd e), height (snd e), crf (snd e))) ?fit"
    unfolding run by (simp add: comp_def tier_of_def)
  have one: "getDynamicResolutions w h 1 =
             Inr (map (\<lambda>e. \<lparr>r_width = width (snd e), r_height = height (snd e),
                             r_bitrate =
                               string_of_int
                                 (Math_round (of_nat (baseBitrate (snd e))
                                    * (of_nat (width (snd e) * height (snd e)) / (1920 * 1080))
                                    * 1)) @ ''k'',
                             r_crf = crf (snd e), r_name = fst e\<rparr>) ?fit)"
    unfolding run tier ..
  have ord: "sorted_wrt (\<lambda>a b. pixels b < pixels a) ?fit"
    by (rule sorted_wrt_filter_keep [OF catalog_descending])
  have dis: "distinct (map fst ?fit)"
    by (rule distinct_map_filter [OF catalog_distinct])
  have ex: "calculateBitrate 1280 720 2500 1 = ''1111k''"
    by (simp add: planner_eval)
  from shape one ord dis ex show ?thesis by (intro conjI)
qed

text \<open>
  The amended C3 at a 1920 by 1080 source.
\<close>

theorem planner_catalog_tiers_witness:
  "Min (pixels ` set resolutionTargets) \<le> (1920::nat) * 1080
   \<and> getDynamicResolutions 1920 1080 1 =
       Inr [\<lparr>r_width = 1920, r_height = 1080, r_bitrate = ''5000k'', r_crf = 22,
             r_name = ''1080p''\<rparr>,
            \<lparr>r_width = 1280, r_height = 720, r_bitrate = ''1111k'', r_crf = 23,
             r_name = ''720p''\<rparr>,
            \<lparr>r_width = 854, r_height = 480, r_bitrate = ''198k'', r_crf = 23,
             r_name = ''480p''\<rparr>]"
proof -
  have h: "Min (pixels ` set resolutionTargets) \<le> (1920::nat) * 1080"
    unfolding catalog_Min by simp
  from planner_catalog_tiers [OF h, of 1]
  have "getDynamicResolutions 1920 1080 1 =
             Inr (map (\<lambda>e. \<lparr>r_width = width (snd e), r_height = height (snd e),
                             r_bitrate =
                               string_of_int
                                 (Math_round (of_nat (baseBitrate (snd e))
                                    * (of_nat (width (snd e) * height (snd e)) / (1920 * 1080))
                                    * 1)) @ ''k'',
                             r_crf = crf (snd e), r_name = fst e\<rparr>)
                    (filter (\<lambda>e. pixels e \<le> 1920 * 1080) resolutionTargets))"
    by blast
  with h show ?thesis
    by (simp add: resolutionTargets_def pixels_def Math_round_def string_of_int_def
          string_of_nat.simps digit_char_def)
qed

text \<open>
  Claim C3 as stated fails for a source no catalog tier fits: at 640 by 360 the fitting
  catalog tiers are none, and the planner returns a tier all the same.
\<close>

theorem planner_catalog_tiers_counterexample:
  "map pixels resolutionTargets = [8294400, 3686400, 2073600, 921600, 409920]
   \<and> (640::nat) * 360 < 409920
   \<and> map (tier_of 1) (filter (\<lambda>e. pixels e \<le> 640 * 360) resolutionTargets) = []
   \<and> getDynamicResolutions 640 360 1 \<noteq>
       Inr (map (tier_of 1) (filter (\<lambda>e. pixels e \<le> 640 * 360) resolutionTargets))"
proof -
  have e: "filter (\<lambda>e. pixels e \<le> 640 * 360) resolutionTargets = []"
    by (simp add: resolutionTargets_def pixels_def)
  have c: "getDynamicResolutions 640 360 1 =
       Inr [\<lparr>r_width = 640, r_height = 360, r_bitrate = ''278k'', r_crf = 23,
             r_name = ''360p (source)''\<rparr>]"
    by (simp add: planner_eval)
  show ?thesis unfolding c e using catalog_pixels by simp
qed

section \<open>Reading a bitrate back\<close>

lemma decimal_digit_vals:
  "map (digit_val 10) ''0123456789'' = map Some [0, 1, 2, 3, 4, 5, 6, 7, 8, 9]"
  by (simp add: digit_val_def upt_rec)

lemma digit_val_k: "digit_val 10 CHR ''k'' = None"
  by (simp add: digit_val_def upt_rec)

lemma digit_cases:
  assumes "d < (10::nat)"
  shows "d = 0 \<or> d = 1 \<or> d = 2 \<or> d = 3 \<or> d = 4 \<or> d = 5 \<or> d = 6 \<or> d = 7 \<or> d = 8 \<or> d = 9"
  using assms by arith

lemma digit_val_digit_char:
  assumes "d < 10"
  shows "digit_val 10 (digit_char d) = Some d"
  using digit_cases [OF assms] decimal_digit_vals by (auto simp: digit_char_def)

lemma digit_char_in: "digit_char d \<in> set ''0123456789''"
  by (simp add: digit_char_def)

lemma string_of_nat_digits: "set (string_of_nat n) \<subseteq> set ''0123456789''"
proof (induction n rule: string_of_nat.induct)
  case (1 n)
  show ?case
  proof (cases "n < 10")
    case True
    then show ?thesis using digit_char_in [of n] by (subst string_of_nat.simps) simp
  next
    case False
    then show ?thesis using 1 digit_char_in [of "n mod 10"]
      by (subst string_of_nat.simps) simp
  qed
qed

lemma string_of_nat_nonempty: "string_of_nat n \<noteq> []"
  by (subst string_of_nat.simps) simp

lemma digits_value_snoc:
  "digits_value radix (z @ [c]) =
     digits_value radix z * radix + (case digit_val radix c of Some v \<Rightarrow> v | None \<Rightarrow> 0)"
  by (simp add: digits_value_def)

lemma digits_value_string_of_nat: "digits_value 10 (string_of_nat n) = n"
proof (induction n rule: string_of_nat.induct)
  case (1 n)
  show ?case
  proof (cases "n < 10")
    case True
    then show ?thesis
      by (subst string_of_nat.simps) (simp add: digits_value_def digit_val_digit_char)
  next
    case False
    have "digits_value 10 (string_of_nat (n div 10) @ [digit_char (n mod 10)])
            = n div 10 * 10 + n mod 10"
      using 1 [OF False] by (simp add: digits_value_snoc digit_val_digit_char)
    then show ?thesis using False by (subst string_of_nat.simps) simp
  qed
qed

lemma digit_is_digit:
  assumes "c \<in> set ''0123456789''"
  shows "digit_val 10 c \<noteq> None" "\<not> is_space c" "c \<noteq> CHR ''-''" "c \<noteq> CHR ''+''"
        "c \<noteq> CHR ''x''" "c \<noteq> CHR ''X''"
proof -
  have "digit_val 10 c \<in> set (map (digit_val 10) ''0123456789'')"
    using assms by (simp only: set_map) (rule imageI)
  then show "digit_val 10 c \<noteq> None"
    unfolding decimal_digit_vals by auto
  show "\<not> is_space c" "c \<noteq> CHR ''-''" "c \<noteq> CHR ''+''" "c \<noteq> CHR ''x''" "c \<noteq> CHR ''X''"
    using assms by (auto simp: is_space_def)
qed

lemma takeWhile_digits:
  assumes "set z \<subseteq> set ''0123456789''"
  shows "takeWhile (\<lambda>c. digit_val 10 c \<noteq> None) (z @ ''k'') = z"
proof -
  have "\<forall>c \<in> set z. digit_val 10 c \<noteq> None"
    using assms digit_is_digit(1) by blast
  moreover note digit_val_k
  ultimately show ?thesis by simp
qed

lemma no_hex_prefix:
  assumes "CHR ''x'' \<notin> set s" "CHR ''X'' \<notin> set s"
  shows "take 2 s \<noteq> ''0x''" "take 2 s \<noteq> ''0X''"
proof -
  show "take 2 s \<noteq> ''0x''"
  proof
    assume "take 2 s = ''0x''"
    then have "CHR ''x'' \<in> set (take 2 s)" by simp
    then show False using assms(1) by (blast dest: in_set_takeD)
  qed
  show "take 2 s \<noteq> ''0X''"
  proof
    assume "take 2 s = ''0X''"
    then have "CHR ''X'' \<in> set (take 2 s)" by simp
    then show False using assms(2) by (blast dest: in_set_takeD)
  qed
qed

lemma parseInt_digits:
  assumes z: "set z \<subseteq> set ''0123456789''" and ne: "z \<noteq> []"
  shows "parseInt (z @ ''k'') = Some (int (digits_value 10 z))"
proof -
  obtain c cs where zc: "z = c # cs" using ne by (cases z) auto
  have c: "c \<in> set ''0123456789''" using z zc by simp
  note cd = digit_is_digit [OF c]
  have s1: "dropWhile is_space (z @ ''k'') = z @ ''k''"
    using cd(2) by (simp add: zc)
  have sign: "take 1 (z @ ''k'') \<noteq> ''-''" "take 1 (z @ ''k'') \<noteq> ''+''"
    using cd(3,4) by (simp_all add: zc)
  have nohex: "take 2 (z @ ''k'') \<noteq> ''0x''" "take 2 (z @ ''k'') \<noteq> ''0X''"
  proof -
    have "CHR ''x'' \<notin> set (z @ ''k'')" "CHR ''X'' \<notin> set (z @ ''k'')"
      using z digit_is_digit(5,6) by auto
    then show "take 2 (z @ ''k'') \<noteq> ''0x''" "take 2 (z @ ''k'') \<noteq> ''0X''"
      by (rule no_hex_prefix)+
  qed
  show ?thesis
    unfolding parseInt_def Let_def s1
    by (simp only: sign nohex ne simp_thms if_False mult_1 takeWhile_digits [OF z])
qed

lemma parseInt_negative_digits:
  assumes z: "set z \<subseteq> set ''0123456789''" and ne: "z \<noteq> []"
  shows "parseInt (CHR ''-'' # z @ ''k'') = Some (- int (digits_value 10 z))"
proof -
  have s1: "dropWhile is_space (CHR ''-'' # z @ ''k'') = CHR ''-'' # z @ ''k''"
    by (simp add: is_space_def)
  have nohex: "take 2 (z @ ''k'') \<noteq> ''0x''" "take 2 (z @ ''k'') \<noteq> ''0X''"
  proof -
    have "CHR ''x'' \<notin> set (z @ ''k'')" "CHR ''X'' \<notin> set (z @ ''k'')"
      using z digit_is_digit(5,6) by auto
    then show "take 2 (z @ ''k'') \<noteq> ''0x''" "take 2 (z @ ''k'') \<noteq> ''0X''"
      by (rule no_hex_prefix)+
  qed
  have sign: "take 1 (CHR ''-'' # z @ ''k'') = ''-''" "drop 1 (CHR ''-'' # z @ ''k'') = z @ ''k''"
    by simp_all
  show ?thesis
    unfolding parseInt_def Let_def s1 sign
    by (simp only: nohex ne simp_thms if_True if_False takeWhile_digits [OF z]
          mult_minus1 )
qed

lemma parseInt_string_of_int: "parseInt (string_of_int i @ ''k'') = Some i"
proof (cases "i < 0")
  case True
  then show ?thesis
    using parseInt_negative_digits [OF string_of_nat_digits string_of_nat_nonempty, of "nat (- i)"]
    by (simp add: string_of_int_def digits_value_string_of_nat)
next
  case False
  then show ?thesis
    using parseInt_digits [OF string_of_nat_digits string_of_nat_nonempty, of "nat i"]
    by (simp add: string_of_int_def digits_value_string_of_nat)
qed

lemma bandwidth_text_bitrate:
  "bandwidth_text (string_of_int i @ ''k'') = string_of_int (i * 1000)"
  by (simp add: bandwidth_text_def parseInt_string_of_int)

lemma bandwidth_text_1111: "bandwidth_text ''1111k'' = ''1111000''"
proof -
  have "string_of_int 1111 = ''1111''" "string_of_int 1111000 = ''1111000''"
    by (simp_all add: string_of_int_def string_of_nat.simps digit_char_def)
  then show ?thesis using bandwidth_text_bitrate [of 1111] by simp
qed

section \<open>The upload coordinator\<close>

lemma length_readDir: "length (readDir dir items) = count_files items"
  by (induction dir items rule: readDir.induct) simp_all

lemma map_filter_empty_iff: "List.map_filter f xs = [] \<longleftrightarrow> (\<forall>x \<in> set xs. f x = None)"
  by (induction xs) (auto split: option.splits)

lemma upload_calls:
  "calls (uploadHlsFilesToS3 s3 items dir oid) = map (upload_request dir oid) (readDir dir items)"
  by (simp add: uploadHlsFilesToS3_def Let_def)

lemma upload_outcome:
  "outcome (uploadHlsFilesToS3 s3 items dir oid) =
     (case List.map_filter s3 (calls (uploadHlsFilesToS3 s3 items dir oid)) of
        [] \<Rightarrow> Inr () | e # _ \<Rightarrow> Inl e)"
  by (simp add: uploadHlsFilesToS3_def Let_def)

text \<open>
  Claim C7. For a directory tree holding N files the upload coordinator issues exactly
  N upload calls, one per file in the order of the walk, with content type
  \<open>application/x-mpegURL\<close> for a path ending in \<open>.m3u8\<close> and \<open>video/MP2T\<close> for
  every other; the call fails as a whole as soon as one upload fails, and succeeds only
  when every upload succeeded.
\<close>

theorem upload_coordinator:
  "length (calls (uploadHlsFilesToS3 s3 items dir oid)) = count_files items
   \<and> map Body (calls (uploadHlsFilesToS3 s3 items dir oid)) = readDir dir items
   \<and> map ContentType (calls (uploadHlsFilesToS3 s3 items dir oid)) =
       map (\<lambda>filePath. if endsWith filePath ''.m3u8'' then ''application/x-mpegURL''
                       else ''video/MP2T'')
         (readDir dir items)
   \<and> ((\<exists>e. outcome (uploadHlsFilesToS3 s3 items dir oid) = Inl e)
        = (\<exists>p \<in> set (calls (uploadHlsFilesToS3 s3 items dir oid)). s3 p \<noteq> None))
   \<and> ((outcome (uploadHlsFilesToS3 s3 items dir oid) = Inr ())
        = (\<forall>p \<in> set (calls (uploadHlsFilesToS3 s3 items dir oid)). s3 p = None))"
proof -
  let ?run = "uploadHlsFilesToS3 s3 items dir oid"
  have n: "length (calls ?run) = count_files items"
    by (simp add: upload_calls length_readDir)
  have b: "map Body (calls ?run) = readDir dir items"
    by (simp add: upload_calls upload_request_def comp_def)
  have c: "map ContentType (calls ?run) =
       map (\<lambda>filePath. if endsWith filePath ''.m3u8'' then ''application/x-mpegURL''
                       else ''video/MP2T'')
         (readDir dir items)"
    by (simp add: upload_calls upload_request_def comp_def)
  have ok: "(outcome ?run = Inr ()) = (\<forall>p \<in> set (calls ?run). s3 p = None)"
    unfolding upload_outcome map_filter_empty_iff [symmetric]
    by (simp split: list.splits)
  have bad: "(\<exists>e. outcome ?run = Inl e) = (\<exists>p \<in> set (calls ?run). s3 p \<noteq> None)"
  proof -
    have "(\<exists>e. outcome ?run = Inl e) = (outcome ?run \<noteq> Inr ())"
      by (cases "outcome ?run") auto
    with ok show ?thesis by auto
  qed
  from n b c bad ok show ?thesis by blast
qed

text \<open>
  C7 on a tree of three files, the upload of the last one failing.
\<close>

theorem upload_coordinator_witness:
  "count_files [File ''master.m3u8'', Dir ''720p'' [File ''index.m3u8'', File ''index0.ts'']] = 3
   \<and> calls (uploadHlsFilesToS3
         (\<lambda>p. if Key p = ''courses/chapters/videos/v1/720p/index0.ts'' then Some (External ''s3'')
              else None)
         [File ''master.m3u8'', Dir ''720p'' [File ''index.m3u8'', File ''index0.ts'']]
         ''uploads/hls/v1'' ''v1'') =
       [\<lparr>Key = ''courses/chapters/videos/v1/master.m3u8'', Body = ''uploads/hls/v1/master.m3u8'',
          ContentType = ''application/x-mpegURL''\<rparr>,
        \<lparr>Key = ''courses/chapters/videos/v1/720p/index.m3u8'',
          Body = ''uploads/hls/v1/720p/index.m3u8'', ContentType = ''application/x-mpegURL''\<rparr>,
        \<lparr>Key = ''courses/chapters/videos/v1/720p/index0.ts'',
          Body = ''uploads/hls/v1/720p/index0.ts'', ContentType = ''video/MP2T''\<rparr>]
   \<and> outcome (uploadHlsFilesToS3
         (\<lambda>p. if Key p = ''courses/chapters/videos/v1/720p/index0.ts'' then Some (External ''s3'')
              else None)
         [File ''master.m3u8'', Dir ''720p'' [File ''index.m3u8'', File ''index0.ts'']]
         ''uploads/hls/v1'' ''v1'') \<noteq> Inr ()"
proof -
  let ?s3 = "\<lambda>p. if Key p = ''courses/chapters/videos/v1/720p/index0.ts''
                   then Some (External ''s3'') else None"
  let ?items = "[File ''master.m3u8'', Dir ''720p'' [File ''index.m3u8'', File ''index0.ts'']]"
  have cs: "calls (uploadHlsFilesToS3 ?s3 ?items ''uploads/hls/v1'' ''v1'') =
       [\<lparr>Key = ''courses/chapters/videos/v1/master.m3u8'', Body = ''uploads/hls/v1/master.m3u8'',
          ContentType = ''application/x-mpegURL''\<rparr>,
        \<lparr>Key = ''courses/chapters/videos/v1/720p/index.m3u8'',
          Body = ''uploads/hls/v1/720p/index.m3u8'', ContentType = ''application/x-mpegURL''\<rparr>,
        \<lparr>Key = ''courses/chapters/videos/v1/720p/index0.ts'',
          Body = ''uploads/hls/v1/720p/index0.ts'', ContentType = ''video/MP2T''\<rparr>]"
    by (simp add: uploadHlsFilesToS3_def Let_def upload_request_def path_join_def
          path_relative_def endsWith_def)
  have n: "count_files ?items = 3" by simp
  from upload_coordinator [of ?s3 ?items "''uploads/hls/v1''" "''v1''"]
  have "(outcome (uploadHlsFilesToS3 ?s3 ?items ''uploads/hls/v1'' ''v1'') = Inr ())
        = (\<forall>p \<in> set (calls (uploadHlsFilesToS3 ?s3 ?items ''uploads/hls/v1'' ''v1'')). ?s3 p = None)"
    by blast
  then have "outcome (uploadHlsFilesToS3 ?s3 ?items ''uploads/hls/v1'' ''v1'') \<noteq> Inr ()"
    unfolding cs by simp
  with cs n show ?thesis by blast
qed

section \<open>Directory cleanup\<close>

lemma cleanupDirectory_returns: "snd (snd (cleanupDirectory F dirPath removeDir node)) = None"
  by (cases node) (auto split: prod.splits option.splits)

lemma cleanup_items_returns: "snd (snd (cleanup_items F dirPath items)) = None"
proof (induction items)
  case Nil
  show ?case by simp
next
  case (Cons item items)
  show ?case
  proof (cases item)
    case (File name)
    with Cons show ?thesis
      by (auto simp: Let_def split: prod.splits option.splits)
  next
    case (Dir name sub)
    have "snd (snd (cleanupDirectory F (path_join dirPath name) True (Some (Dir name sub)))) = None"
      by (rule cleanupDirectory_returns)
    with Cons Dir show ?thesis
      by (auto split: prod.splits option.splits)
  qed
qed

lemma cleanup_items_logs_failure:
  assumes "File name \<in> set items"
    and "unlink_error F (path_join dirPath name) = Some err"
  shows "LogError (''Failed to delete file '' @ path_join dirPath name) err
           \<in> set (fst (snd (cleanup_items F dirPath items)))"
  using assms(1)
proof (induction items)
  case Nil
  then show ?case by simp
next
  case (Cons item items)
  show ?case
  proof (cases item)
    case (File other)
    show ?thesis
    proof (cases "other = name")
      case True
      with File assms(2) show ?thesis
        by (simp add: Let_def split: prod.splits)
    next
      case False
      with File Cons have "LogError (''Failed to delete file '' @ path_join dirPath name) err
           \<in> set (fst (snd (cleanup_items F dirPath items)))"
        by simp
      with File show ?thesis
        by (auto simp: Let_def split: prod.splits option.splits)
    qed
  next
    case (Dir other sub)
    with Cons have ih: "LogError (''Failed to delete file '' @ path_join dirPath name) err
           \<in> set (fst (snd (cleanup_items F dirPath items)))"
      by simp
    have "snd (snd (cleanupDirectory F (path_join dirPath other) True (Some (Dir other sub)))) = None"
      by (rule cleanupDirectory_returns)
    with ih Dir show ?thesis
      by (auto split: prod.splits option.splits)
  qed
qed

lemma cleanupDirectory_logs_failure:
  assumes "readdir_error F dirPath = None"
    and "File name \<in> set items"
    and "unlink_error F (path_join dirPath name) = Some err"
  shows "LogError (''Failed to delete file '' @ path_join dirPath name) err
           \<in> set (fst (snd (cleanupDirectory F dirPath removeDir (Some (Dir d items)))))"
proof -
  obtain remaining lines thrown where ci: "cleanup_items F dirPath items = (remaining, lines, thrown)"
    by (cases "cleanup_items F dirPath items") auto
  have t: "thrown = None" using cleanup_items_returns [of F dirPath items] ci by simp
  have m: "LogError (''Failed to delete file '' @ path_join dirPath name) err \<in> set lines"
    using cleanup_items_logs_failure [OF assms(2,3)] ci by simp
  show ?thesis using assms(1) ci t m
    by (simp split: option.splits)
qed

lemma cleanup_items_log_File:
  "fst (snd (cleanup_items F dir (File name # items))) =
     (case unlink_error F (path_join dir name) of
        None \<Rightarrow> LogInfo (''Deleted file: '' @ path_join dir name)
      | Some err \<Rightarrow> LogError (''Failed to delete file '' @ path_join dir name) err)
     # fst (snd (cleanup_items F dir items))"
  by (simp add: Let_def split: prod.splits option.splits)

lemma cleanup_items_log_Dir:
  "fst (snd (cleanup_items F dir (Dir name sub # items))) =
     fst (snd (cleanupDirectory F (path_join dir name) True (Some (Dir name sub))))
     @ fst (snd (cleanup_items F dir items))"
  using cleanupDirectory_returns [of F "path_join dir name" True "Some (Dir name sub)"]
  by (auto split: prod.splits option.splits)

lemma cleanupDirectory_log_unreadable:
  assumes "readdir_error F p = Some err"
  shows "fst (snd (cleanupDirectory F p removeDir (Some (Dir d items)))) =
           [LogError (''Error during directory cleanup of '' @ p) err]"
  using assms by simp

lemma cleanupDirectory_log_readable:
  assumes "readdir_error F p = None"
  shows "fst (snd (cleanupDirectory F p removeDir (Some (Dir d items)))) =
           fst (snd (cleanup_items F p items))
           @ (if removeDir
              then [case rmdirSync F p (fst (cleanup_items F p items)) of
                      None \<Rightarrow> LogInfo (''Deleted directory: '' @ p)
                    | Some err \<Rightarrow> LogError (''Failed to delete directory '' @ p) err]
              else [])"
  using assms cleanup_items_returns [of F p items]
  by (auto split: prod.splits option.splits)

lemma dir_fate_logged_self:
  "dir_fate_logged F p (fst (snd (cleanupDirectory F p True (Some (Dir d items)))))"
proof (cases "readdir_error F p")
  case (Some err)
  then show ?thesis
    by (simp add: dir_fate_logged_def cleanupDirectory_log_unreadable del: cleanupDirectory.simps)
next
  case None
  show ?thesis
    unfolding dir_fate_logged_def cleanupDirectory_log_readable [OF None]
    by (auto simp: None rmdirSync_def split: option.splits)
qed

lemma dir_fate_logged_mono:
  "dir_fate_logged F p lines \<Longrightarrow> set lines \<subseteq> set lines' \<Longrightarrow> dir_fate_logged F p lines'"
  unfolding dir_fate_logged_def by (auto split: option.splits)

lemma reached_files_logged:
  "p \<in> set (reached_files F dir items) \<Longrightarrow> unlink_error F p = Some err \<Longrightarrow>
     LogError (''Failed to delete file '' @ p) err \<in> set (fst (snd (cleanup_items F dir items)))"
proof (induction F dir items rule: reached_files.induct)
  case (1 F dir)
  then show ?case by simp
next
  case (2 F dir name items)
  then show ?case
    by (auto simp: cleanup_items_log_File simp del: cleanup_items.simps)
next
  case (3 F dir name sub items)
  show ?case
  proof (cases "p \<in> set (reached_files F dir items)")
    case True
    with 3 show ?thesis
      by (simp add: cleanup_items_log_Dir del: cleanup_items.simps cleanupDirectory.simps)
  next
    case False
    with "3.prems"(1) have r: "readdir_error F (path_join dir name) = None"
      and m: "p \<in> set (reached_files F (path_join dir name) sub)"
      by (auto split: if_splits)
    from "3.IH"(1) [OF r m "3.prems"(2)]
    show ?thesis
      by (simp add: cleanup_items_log_Dir cleanupDirectory_log_readable [OF r]
            del: cleanup_items.simps cleanupDirectory.simps)
  qed
qed

lemma reached_dirs_logged:
  "p \<in> set (reached_dirs F dir items) \<Longrightarrow>
     dir_fate_logged F p (fst (snd (cleanup_items F dir items)))"
proof (induction F dir items rule: reached_dirs.induct)
  case (1 F dir)
  then show ?case by simp
next
  case (2 F dir name items)
  then have "dir_fate_logged F p (fst (snd (cleanup_items F dir items)))" by simp
  then show ?case
    by (rule dir_fate_logged_mono) (auto simp: cleanup_items_log_File simp del: cleanup_items.simps)
next
  case (3 F dir name sub items)
  let ?sublog = "fst (snd (cleanupDirectory F (path_join dir name) True (Some (Dir name sub))))"
  have split: "fst (snd (cleanup_items F dir (Dir name sub # items))) =
                 ?sublog @ fst (snd (cleanup_items F dir items))"
    by (rule cleanup_items_log_Dir)
  consider (self) "p = path_join dir name"
    | (below) "readdir_error F (path_join dir name) = None"
        "p \<in> set (reached_dirs F (path_join dir name) sub)"
    | (rest) "p \<in> set (reached_dirs F dir items)"
    using "3.prems" by (auto split: if_splits)
  then show ?case
  proof cases
    case self
    have "dir_fate_logged F p ?sublog"
      unfolding self by (rule dir_fate_logged_self)
    then show ?thesis unfolding split by (rule dir_fate_logged_mono) simp
  next
    case below
    have "dir_fate_logged F p (fst (snd (cleanup_items F (path_join dir name) sub)))"
      by (rule "3.IH"(1) [OF below])
    then have "dir_fate_logged F p ?sublog"
      by (rule dir_fate_logged_mono) (auto simp: cleanupDirectory_log_readable [OF below(1)]
            simp del: cleanup_items.simps cleanupDirectory.simps)
    then show ?thesis unfolding split by (rule dir_fate_logged_mono) simp
  next
    case rest
    have "dir_fate_logged F p (fst (snd (cleanup_items F dir items)))"
      by (rule "3.IH"(2) [OF rest])
    then show ?thesis unfolding split by (rule dir_fate_logged_mono) simp
  qed
qed


text \<open>
  Claim C9. The directory cleanup never raises, whatever stands at the path and
  whichever file-system calls fail; so a second cleanup right after a first one, on a
  tree already emptied or removed, does not raise either. When the path does not exist it
  returns at once, changing and logging nothing. Every deletion that fails is logged:
  that of a file of the listing or of any subdirectory the cleanup enters, with the
  error of the failed call, and that of a directory, the cleaned one or one below it,
  whose fate (removed, not removed, not readable) is always on the log.
\<close>

theorem cleanup_never_raises:
  "snd (snd (cleanupDirectory F dirPath removeDir node)) = None
   \<and> snd (snd (cleanupDirectory F' dirPath removeDir
                 (fst (cleanupDirectory F dirPath removeDir node)))) = None
   \<and> cleanupDirectory F dirPath removeDir None = (None, [], None)
   \<and> (readdir_error F dirPath = None \<and> File name \<in> set items
        \<and> unlink_error F (path_join dirPath name) = Some err
       \<longrightarrow> LogError (''Failed to delete file '' @ path_join dirPath name) err
             \<in> set (fst (snd (cleanupDirectory F dirPath removeDir (Some (Dir d items)))))
           \<and> snd (snd (cleanupDirectory F dirPath removeDir (Some (Dir d items)))) = None)
   \<and> (readdir_error F dirPath = None \<and> p \<in> set (reached_files F dirPath items)
        \<and> unlink_error F p = Some err
       \<longrightarrow> LogError (''Failed to delete file '' @ p) err
             \<in> set (fst (snd (cleanupDirectory F dirPath removeDir (Some (Dir d items))))))
   \<and> (readdir_error F dirPath = None \<and> q \<in> set (reached_dirs F dirPath items)
       \<longrightarrow> dir_fate_logged F q
             (fst (snd (cleanupDirectory F dirPath removeDir (Some (Dir d items))))))
   \<and> dir_fate_logged F dirPath (fst (snd (cleanupDirectory F dirPath True (Some (Dir d items)))))"
proof -
  let ?run = "cleanupDirectory F dirPath removeDir (Some (Dir d items))"
  have a: "snd (snd (cleanupDirectory F dirPath removeDir node)) = None"
    by (rule cleanupDirectory_returns)
  have b: "snd (snd (cleanupDirectory F' dirPath removeDir
                 (fst (cleanupDirectory F dirPath removeDir node)))) = None"
    by (rule cleanupDirectory_returns)
  have c: "cleanupDirectory F dirPath removeDir None = (None, [], None)"
    by simp
  have d: "snd (snd ?run) = None"
    by (rule cleanupDirectory_returns)
  have sub: "set (fst (snd (cleanup_items F dirPath items))) \<subseteq> set (fst (snd ?run))"
    if "readdir_error F dirPath = None"
    by (auto simp: cleanupDirectory_log_readable [OF that]
          simp del: cleanup_items.simps cleanupDirectory.simps)
  have e: "readdir_error F dirPath = None \<and> p \<in> set (reached_files F dirPath items)
        \<and> unlink_error F p = Some err
       \<longrightarrow> LogError (''Failed to delete file '' @ p) err \<in> set (fst (snd ?run))"
    using reached_files_logged [of p F dirPath items err] sub by blast
  have f: "readdir_error F dirPath = None \<and> q \<in> set (reached_dirs F dirPath items)
       \<longrightarrow> dir_fate_logged F q (fst (snd ?run))"
    using reached_dirs_logged [of q F dirPath items] sub dir_fate_logged_mono by blast
  have g: "dir_fate_logged F dirPath
             (fst (snd (cleanupDirectory F dirPath True (Some (Dir d items)))))"
    by (rule dir_fate_logged_self)
  from a b c d cleanupDirectory_logs_failure [of F dirPath name items err removeDir d] e f g
  show ?thesis by blast
qed

text \<open>
  C9 on a working directory with a frame, in a subdirectory, that cannot be deleted;
  then on an empty directory and on a missing one.
\<close>

theorem cleanup_never_raises_witness:
  "cleanupDirectory
     \<lparr>readdir_error = (\<lambda>p. None),
      unlink_error = (\<lambda>p. if p = ''uploads/v1/frames_temp/frame-000.jpg''
                            then Some (External ''EACCES'') else None),
      rmdir_error = (\<lambda>p. None)\<rparr>
     ''uploads/v1'' True
     (Some (Dir ''v1'' [File ''original.mp4'', Dir ''frames_temp'' [File ''frame-000.jpg'']])) =
   (Some (Dir ''v1'' [Dir ''frames_temp'' [File ''frame-000.jpg'']]),
    [LogInfo ''Deleted file: uploads/v1/original.mp4'',
     LogError ''Failed to delete file uploads/v1/frames_temp/frame-000.jpg'' (External ''EACCES''),
     LogError ''Failed to delete directory uploads/v1/frames_temp'' (External ''ENOTEMPTY''),
     LogError ''Failed to delete directory uploads/v1'' (External ''ENOTEMPTY'')],
    None)
   \<and> ''uploads/v1/frames_temp/frame-000.jpg''
       \<in> set (reached_files
                \<lparr>readdir_error = (\<lambda>p. None),
                 unlink_error = (\<lambda>p. if p = ''uploads/v1/frames_temp/frame-000.jpg''
                                       then Some (External ''EACCES'') else None),
                 rmdir_error = (\<lambda>p. None)\<rparr>
                ''uploads/v1'' [File ''original.mp4'', Dir ''frames_temp'' [File ''frame-000.jpg'']])
   \<and> LogError ''Failed to delete file uploads/v1/frames_temp/frame-000.jpg'' (External ''EACCES'')
       \<in> set (fst (snd (cleanupDirectory
             \<lparr>readdir_error = (\<lambda>p. None),
              unlink_error = (\<lambda>p. if p = ''uploads/v1/frames_temp/frame-000.jpg''
                                    then Some (External ''EACCES'') else None),
              rmdir_error = (\<lambda>p. None)\<rparr>
             ''uploads/v1'' True
             (Some (Dir ''v1'' [File ''original.mp4'',
                                Dir ''frames_temp'' [File ''frame-000.jpg'']])))))
   \<and> dir_fate_logged
        \<lparr>readdir_error = (\<lambda>p. None),
         unlink_error = (\<lambda>p. if p = ''uploads/v1/frames_temp/frame-000.jpg''
                               then Some (External ''EACCES'') else None),
         rmdir_error = (\<lambda>p. None)\<rparr>
        ''uploads/v1/frames_temp''
        (fst (snd (cleanupDirectory
             \<lparr>readdir_error = (\<lambda>p. None),
              unlink_error = (\<lambda>p. if p = ''uploads/v1/frames_temp/frame-000.jpg''
                                    then Some (External ''EACCES'') else None),
              rmdir_error = (\<lambda>p. None)\<rparr>
             ''uploads/v1'' True
             (Some (Dir ''v1'' [File ''original.mp4'',
                                Dir ''frames_temp'' [File ''frame-000.jpg'']])))))
   \<and> cleanupDirectory
        \<lparr>readdir_error = (\<lambda>p. None), unlink_error = (\<lambda>p. None), rmdir_error = (\<lambda>p. None)\<rparr>
        ''uploads/v1'' True (Some (Dir ''v1'' [])) =
       (None, [LogInfo ''Deleted directory: uploads/v1''], None)
   \<and> cleanupDirectory
        \<lparr>readdir_error = (\<lambda>p. None), unlink_error = (\<lambda>p. None), rmdir_error = (\<lambda>p. None)\<rparr>
        ''uploads/v1'' True None = (None, [], None)"
proof -
  let ?F = "\<lparr>readdir_error = (\<lambda>p. None),
      unlink_error = (\<lambda>p. if p = ''uploads/v1/frames_temp/frame-000.jpg''
                            then Some (External ''EACCES'') else None),
      rmdir_error = (\<lambda>p. None)\<rparr>"
  let ?G = "\<lparr>readdir_error = (\<lambda>p. None), unlink_error = (\<lambda>p. None),
              rmdir_error = (\<lambda>p. None)\<rparr>"
  let ?items = "[File ''original.mp4'', Dir ''frames_temp'' [File ''frame-000.jpg'']]"
  have run: "cleanupDirectory ?F ''uploads/v1'' True (Some (Dir ''v1'' ?items)) =
   (Some (Dir ''v1'' [Dir ''frames_temp'' [File ''frame-000.jpg'']]),
    [LogInfo ''Deleted file: uploads/v1/original.mp4'',
     LogError ''Failed to delete file uploads/v1/frames_temp/frame-000.jpg'' (External ''EACCES''),
     LogError ''Failed to delete directory uploads/v1/frames_temp'' (External ''ENOTEMPTY''),
     LogError ''Failed to delete directory uploads/v1'' (External ''ENOTEMPTY'')],
    None)"
    by (simp add: path_join_def rmdirSync_def Let_def)
  have rf: "''uploads/v1/frames_temp/frame-000.jpg'' \<in> set (reached_files ?F ''uploads/v1'' ?items)"
    by (simp add: path_join_def)
  have rd: "''uploads/v1/frames_temp'' \<in> set (reached_dirs ?F ''uploads/v1'' ?items)"
    by (simp add: path_join_def)
  have h: "readdir_error ?F ''uploads/v1'' = None"
    "unlink_error ?F ''uploads/v1/frames_temp/frame-000.jpg'' = Some (External ''EACCES'')"
    by simp_all
  note inst = cleanup_never_raises [of ?F "''uploads/v1''" True _ _ _ ?items "External ''EACCES''"
        "''v1''" "''uploads/v1/frames_temp/frame-000.jpg''" "''uploads/v1/frames_temp''"]
  have logged: "LogError ''Failed to delete file uploads/v1/frames_temp/frame-000.jpg''
         (External ''EACCES'')
       \<in> set (fst (snd (cleanupDirectory ?F ''uploads/v1'' True (Some (Dir ''v1'' ?items)))))"
  proof -
    have "LogError (''Failed to delete file '' @ ''uploads/v1/frames_temp/frame-000.jpg'')
         (External ''EACCES'')
       \<in> set (fst (snd (cleanupDirectory ?F ''uploads/v1'' True (Some (Dir ''v1'' ?items)))))"
      using inst h rf by blast
    then show ?thesis by (simp only: append.simps)
  qed
  have fate: "dir_fate_logged ?F ''uploads/v1/frames_temp''
        (fst (snd (cleanupDirectory ?F ''uploads/v1'' True (Some (Dir ''v1'' ?items)))))"
    using inst h(1) rd by blast
  have empty: "cleanupDirectory ?G ''uploads/v1'' True (Some (Dir ''v1'' [])) =
       (None, [LogInfo ''Deleted directory: uploads/v1''], None)"
    by (simp add: rmdirSync_def)
  from cleanup_never_raises [of ?G "''uploads/v1''" True]
  have gone: "cleanupDirectory ?G ''uploads/v1'' True None = (None, [], None)"
    by blast
  from run rf logged fate empty gone show ?thesis by (intro conjI)
qed

section \<open>The master manifest\<close>

lemma encode_tiers_acc:
  "encode_tiers enc rs acc = Inr vs \<Longrightarrow> vs = acc @ map variant_of rs"
proof (induction rs arbitrary: acc)
  case Nil
  then show ?case by simp
next
  case (Cons r rs)
  from Cons.prems have "encode_tiers enc rs (acc @ [variant_of r]) = Inr vs"
    by (auto split: option.splits)
  from Cons.IH [OF this] show ?case by simp
qed

lemma encode_tiers_all_ok:
  "(\<forall>r \<in> set rs. enc r = None) \<Longrightarrow> encode_tiers enc rs acc = Inr (acc @ map variant_of rs)"
  by (induction rs arbitrary: acc) auto

lemma join_Cons: "xs \<noteq> [] \<Longrightarrow> join sep (x # xs) = x @ sep @ join sep xs"
  by (cases xs) simp_all

lemma join_pairs:
  "join sep (map (\<lambda>v. a v @ sep @ b v) vs) = join sep (concat (map (\<lambda>v. [a v, b v]) vs))"
proof (induction vs)
  case Nil
  show ?case by simp
next
  case (Cons v vs)
  show ?case
  proof (cases vs)
    case Nil
    then show ?thesis by simp
  next
    case (Cons u us)
    then have ne: "map (\<lambda>v. a v @ sep @ b v) vs \<noteq> []" "concat (map (\<lambda>v. [a v, b v]) vs) \<noteq> []"
      by simp_all
    show ?thesis
      using Cons.IH by (simp add: join_Cons [OF ne(1)] join_Cons [OF ne(2)])
  qed
qed

lemma masterPlaylist_lines:
  assumes "vs \<noteq> []"
  shows "masterPlaylist vs =
           join newline (''#EXTM3U'' # concat (map (\<lambda>v. [stream_inf v, v_playlist v]) vs))"
proof -
  have "concat (map (\<lambda>v. [stream_inf v, v_playlist v]) vs) \<noteq> []"
    using assms by (cases vs) simp_all
  then show ?thesis
    by (simp add: masterPlaylist_def masterPlaylistContent_def join_Cons join_pairs)
qed

text \<open>
  Claim C6. When every tier of the plan has been encoded, the variants are those of the
  plan in its order, and the master manifest is the header line followed, for each
  variant, by a stream-info line and the variant's relative playlist path. The
  stream-info line carries as \<open>BANDWIDTH\<close> the number read off the front of the
  bitrate string times 1000 and as \<open>RESOLUTION\<close> the text \<open>width x height\<close>; a
  bitrate \<open>n k\<close> gives \<open>n * 1000\<close>, so \<open>1111k\<close> gives 1111000.
\<close>

theorem master_manifest:
  assumes "encode_tiers enc rs [] = Inr vs" and "rs \<noteq> []"
  shows "vs = map variant_of rs
         \<and> masterPlaylist vs =
             join newline
               (''#EXTM3U'' #
                concat (map (\<lambda>r. [''#EXT-X-STREAM-INF:BANDWIDTH='' @ bandwidth_text (r_bitrate r)
                                     @ '',RESOLUTION='' @ string_of_nat (r_width r) @ ''x''
                                     @ string_of_nat (r_height r),
                                   replace_first '' (source)'' [] (r_name r) @ ''/index.m3u8''])
                          rs))
         \<and> bandwidth_text (string_of_int n @ ''k'') = string_of_int (n * 1000)
         \<and> bandwidth_text ''1111k'' = ''1111000''"
proof -
  have vs: "vs = map variant_of rs"
    using encode_tiers_acc [OF assms(1)] by simp
  then have ne: "vs \<noteq> []" using assms(2) by simp
  have m: "masterPlaylist vs =
             join newline
               (''#EXTM3U'' #
                concat (map (\<lambda>r. [''#EXT-X-STREAM-INF:BANDWIDTH='' @ bandwidth_text (r_bitrate r)
                                     @ '',RESOLUTION='' @ string_of_nat (r_width r) @ ''x''
                                     @ string_of_nat (r_height r),
                                   replace_first '' (source)'' [] (r_name r) @ ''/index.m3u8''])
                          rs))"
    unfolding masterPlaylist_lines [OF ne]
    by (simp add: vs comp_def stream_inf_def variant_of_def)
  from vs m bandwidth_text_bitrate bandwidth_text_1111 show ?thesis by blast
qed

text \<open>
  C6 on a plan of two tiers, the second one a synthesized source tier.
\<close>

theorem master_manifest_witness:
  "encode_tiers (\<lambda>r. None)
     [\<lparr>r_width = 1280, r_height = 720, r_bitrate = ''1111k'', r_crf = 23, r_name = ''720p''\<rparr>,
      \<lparr>r_width = 640, r_height = 360, r_bitrate = ''278k'', r_crf = 23,
        r_name = ''360p (source)''\<rparr>] [] =
   Inr [\<lparr>v_width = 1280, v_height = 720, v_bitrate = ''1111k'', v_resolution = ''1280x720'',
         v_playlist = ''720p/index.m3u8''\<rparr>,
        \<lparr>v_width = 640, v_height = 360, v_bitrate = ''278k'', v_resolution = ''640x360'',
         v_playlist = ''360p/index.m3u8''\<rparr>]
   \<and> masterPlaylist
        [\<lparr>v_width = 1280, v_height = 720, v_bitrate = ''1111k'', v_resolution = ''1280x720'',
          v_playlist = ''720p/index.m3u8''\<rparr>,
         \<lparr>v_width = 640, v_height = 360, v_bitrate = ''278k'', v_resolution = ''640x360'',
          v_playlist = ''360p/index.m3u8''\<rparr>] =
       join newline
         [''#EXTM3U'',
          ''#EXT-X-STREAM-INF:BANDWIDTH=1111000,RESOLUTION=1280x720'', ''720p/index.m3u8'',
          ''#EXT-X-STREAM-INF:BANDWIDTH=278000,RESOLUTION=640x360'', ''360p/index.m3u8'']"
proof -
  let ?rs = "[\<lparr>r_width = 1280, r_height = 720, r_bitrate = ''1111k'', r_crf = 23, r_name = ''720p''\<rparr>,
      \<lparr>r_width = 640, r_height = 360, r_bitrate = ''278k'', r_crf = 23,
        r_name = ''360p (source)''\<rparr>]"
  let ?vs = "[\<lparr>v_width = 1280, v_height = 720, v_bitrate = ''1111k'', v_resolution = ''1280x720'',
         v_playlist = ''720p/index.m3u8''\<rparr>,
        \<lparr>v_width = 640, v_height = 360, v_bitrate = ''278k'', v_resolution = ''640x360'',
         v_playlist = ''360p/index.m3u8''\<rparr>]"
  have num: "string_of_nat 1280 = ''1280''" "string_of_nat 720 = ''720''"
    "string_of_nat 640 = ''640''" "string_of_nat 360 = ''360''"
    by (simp_all add: string_of_nat.simps digit_char_def)
  have e: "encode_tiers (\<lambda>r. None) ?rs [] = Inr ?vs"
    by (simp add: variant_of_def num)
  have ne: "?rs \<noteq> []" by simp
  have b: "bandwidth_text ''278k'' = ''278000''"
  proof -
    have "string_of_int 278 = ''278''" "string_of_int 278000 = ''278000''"
      by (simp_all add: string_of_int_def string_of_nat.simps digit_char_def)
    then show ?thesis using master_manifest [OF e ne, of 278] by simp
  qed
  note mm = master_manifest [OF e ne, of 1111]
  have bw: "bandwidth_text ''1111k'' = ''1111000''" using mm by blast
  have "masterPlaylist ?vs =
          join newline
            (''#EXTM3U'' #
             concat (map (\<lambda>r. [''#EXT-X-STREAM-INF:BANDWIDTH='' @ bandwidth_text (r_bitrate r)
                                  @ '',RESOLUTION='' @ string_of_nat (r_width r) @ ''x''
                                  @ string_of_nat (r_height r),
                                replace_first '' (source)'' [] (r_name r) @ ''/index.m3u8''])
                       ?rs))"
    using mm by blast
  also have "\<dots> = join newline
         [''#EXTM3U'',
          ''#EXT-X-STREAM-INF:BANDWIDTH=1111000,RESOLUTION=1280x720'', ''720p/index.m3u8'',
          ''#EXT-X-STREAM-INF:BANDWIDTH=278000,RESOLUTION=640x360'', ''360p/index.m3u8'']"
    by (simp add: bw b num)
  finally have m: "masterPlaylist ?vs = join newline
         [''#EXTM3U'',
          ''#EXT-X-STREAM-INF:BANDWIDTH=1111000,RESOLUTION=1280x720'', ''720p/index.m3u8'',
          ''#EXT-X-STREAM-INF:BANDWIDTH=278000,RESOLUTION=640x360'', ''360p/index.m3u8'']" .
  from e m show ?thesis by (rule conjI)
qed

section \<open>The orchestrator and the status register\<close>

lemma convertToHLS_try_thrown:
  "snd (convertToHLS_try E oid s1) =
     (case mkdir_hls E of
        Some e \<Rightarrow> Some e
      | None \<Rightarrow>
         (case probe E of
            Inl e \<Rightarrow> Some e
          | Inr (w, h) \<Rightarrow>
             (case getDynamicResolutions w h 1 of
                Inl e \<Rightarrow> Some e
              | Inr rs \<Rightarrow>
                 (case encode_tiers (encode E) rs [] of
                    Inl e \<Rightarrow> Some e
                  | Inr vs \<Rightarrow>
                     (case write_manifest E (masterPlaylist vs) of
                        Some e \<Rightarrow> Some e
                      | None \<Rightarrow>
                         (case outcome (uploadHlsFilesToS3 (s3_upload E) (hls_items E)
                                          (path_join (path_join (UPLOADS_DIR E) ''hls'') oid) oid) of
                            Inl e \<Rightarrow> Some e
                          | Inr u \<Rightarrow> None))))))"
  by (simp add: convertToHLS_try_def Let_def split: option.splits sum.splits prod.splits)

lemma convertToHLS_try_shape:
  "(snd (convertToHLS_try E oid s1) \<noteq> None
      \<and> history (fst (convertToHLS_try E oid s1)) = history s1
      \<and> conversionStatus (fst (convertToHLS_try E oid s1)) = conversionStatus s1)
   \<or> (snd (convertToHLS_try E oid s1) \<noteq> None
      \<and> history (fst (convertToHLS_try E oid s1)) = history s1 @ [(oid, ''uploading'')]
      \<and> conversionStatus (fst (convertToHLS_try E oid s1)) oid = Some ''uploading'')
   \<or> (snd (convertToHLS_try E oid s1) = None
      \<and> history (fst (convertToHLS_try E oid s1)) =
           history s1 @ [(oid, ''uploading''), (oid, ''completed'')]
      \<and> conversionStatus (fst (convertToHLS_try E oid s1)) oid = Some ''completed'')"
  by (simp add: convertToHLS_try_def Let_def set_status_def log_swallowed_def
        split: option.splits sum.splits prod.splits)

lemma convertToHLS_result:
  "snd (convertToHLS E oid s) =
     (case snd (convertToHLS_try E oid (set_status oid ''converting'' s)) of
        Some e \<Rightarrow> Inl e | None \<Rightarrow> Inr ())"
  by (simp add: convertToHLS_def Let_def split: prod.splits option.splits)

lemma convertToHLS_history:
  "history (fst (convertToHLS E oid s)) =
     history (fst (convertToHLS_try E oid (set_status oid ''converting'' s)))
       @ (case snd (convertToHLS_try E oid (set_status oid ''converting'' s)) of
            Some e \<Rightarrow> [(oid, ''error'')] | None \<Rightarrow> [])"
  by (simp add: convertToHLS_def Let_def set_status_def log_swallowed_def
        split: prod.splits option.splits)

lemma convertToHLS_status:
  "conversionStatus (fst (convertToHLS E oid s)) oid =
     (case snd (convertToHLS_try E oid (set_status oid ''converting'' s)) of
        Some e \<Rightarrow> Some ''error''
      | None \<Rightarrow> conversionStatus (fst (convertToHLS_try E oid (set_status oid ''converting'' s))) oid)"
  by (simp add: convertToHLS_def Let_def set_status_def log_swallowed_def
        split: prod.splits option.splits)

lemma convertToHLS_trace:
  "(phases_written s (fst (convertToHLS E oid s)) = [(oid, ''converting''), (oid, ''error'')]
      \<and> getConversionStatus (fst (convertToHLS E oid s)) oid = Some ''error''
      \<and> (\<exists>e. snd (convertToHLS E oid s) = Inl e))
   \<or> (phases_written s (fst (convertToHLS E oid s)) =
         [(oid, ''converting''), (oid, ''uploading''), (oid, ''error'')]
      \<and> getConversionStatus (fst (convertToHLS E oid s)) oid = Some ''error''
      \<and> (\<exists>e. snd (convertToHLS E oid s) = Inl e))
   \<or> (phases_written s (fst (convertToHLS E oid s)) =
         [(oid, ''converting''), (oid, ''uploading''), (oid, ''completed'')]
      \<and> getConversionStatus (fst (convertToHLS E oid s)) oid = Some ''completed''
      \<and> snd (convertToHLS E oid s) = Inr ())"
proof -
  let ?s1 = "set_status oid ''converting'' s"
  have h1: "history ?s1 = history s @ [(oid, ''converting'')]"
    by (simp add: set_status_def)
  from convertToHLS_try_shape [of E oid ?s1]
  show ?thesis
    unfolding phases_written_def getConversionStatus_def convertToHLS_history
      convertToHLS_status convertToHLS_result h1
    by (elim disjE conjE) (auto split: option.splits)
qed


lemma convertToHLS_propagates:
  "snd (convertToHLS E oid s) =
     (case mkdir_hls E of
        Some e \<Rightarrow> Inl e
      | None \<Rightarrow>
         (case probe E of
            Inl e \<Rightarrow> Inl e
          | Inr (w, h) \<Rightarrow>
             (case getDynamicResolutions w h 1 of
                Inl e \<Rightarrow> Inl e
              | Inr rs \<Rightarrow>
                 (case encode_tiers (encode E) rs [] of
                    Inl e \<Rightarrow> Inl e
                  | Inr vs \<Rightarrow>
                     (case write_manifest E (masterPlaylist vs) of
                        Some e \<Rightarrow> Inl e
                      | None \<Rightarrow>
                         (case outcome (uploadHlsFilesToS3 (s3_upload E) (hls_items E)
                                          (path_join (path_join (UPLOADS_DIR E) ''hls'') oid) oid) of
                            Inl e \<Rightarrow> Inl e
                          | Inr u \<Rightarrow> Inr ()))))))"
  unfolding convertToHLS_result convertToHLS_try_thrown
  by (simp split: option.splits sum.splits prod.splits)

lemma encode_tiers_first_failure:
  "(\<forall>x \<in> set pre. enc x = None) \<Longrightarrow> enc r = Some e \<Longrightarrow>
     encode_tiers enc (pre @ r # post) acc = Inl e"
  by (induction pre arbitrary: acc) auto

lemma map_filter_head_origin:
  "List.map_filter f xs = e # es \<Longrightarrow> \<exists>x \<in> set xs. f x = Some e"
  by (induction xs) (auto simp: List.map_filter_simps split: option.splits)

lemma upload_failure_origin:
  assumes "outcome (uploadHlsFilesToS3 s3 items dir oid) = Inl e"
  shows "\<exists>p \<in> set (calls (uploadHlsFilesToS3 s3 items dir oid)). s3 p = Some e"
proof -
  from assms obtain es where
    "List.map_filter s3 (calls (uploadHlsFilesToS3 s3 items dir oid)) = e # es"
    unfolding upload_outcome by (auto split: list.splits)
  then show ?thesis by (rule map_filter_head_origin)
qed

lemma upload_outcome_success:
  "(\<forall>p \<in> set (calls (uploadHlsFilesToS3 s3 items dir oid)). s3 p = None) \<Longrightarrow>
     outcome (uploadHlsFilesToS3 s3 items dir oid) = Inr ()"
  unfolding upload_outcome map_filter_empty_iff [symmetric] by simp

lemma upload_outcome_failure:
  "(\<exists>p \<in> set (calls (uploadHlsFilesToS3 s3 items dir oid)). s3 p \<noteq> None) \<Longrightarrow>
     \<exists>e. outcome (uploadHlsFilesToS3 s3 items dir oid) = Inl e"
proof -
  assume "\<exists>p \<in> set (calls (uploadHlsFilesToS3 s3 items dir oid)). s3 p \<noteq> None"
  then have "List.map_filter s3 (calls (uploadHlsFilesToS3 s3 items dir oid)) \<noteq> []"
    by (auto simp: map_filter_empty_iff)
  then show ?thesis
    unfolding upload_outcome by (auto split: list.splits)
qed

text \<open>
  Claim C8. In one run of the orchestrator for a job, the phases written to the status
  register are \<open>converting\<close>, \<open>uploading\<close>, \<open>completed\<close> in this order, cut short by
  \<open>error\<close> when a mandatory stage fails: the phase never moves back. The run fails
  exactly when the register ends at \<open>error\<close>, succeeds exactly when it ends at
  \<open>completed\<close>, and the error given to the caller is the very error of the stage that
  failed: creating the output directory, probing the resolution, encoding a tier (the
  first tier the encoder fails on), writing the manifest, or uploading (the error of an
  upload the gateway refused). When every mandatory stage succeeds the run succeeds,
  whatever the best-effort stages and the cleanups answer.
\<close>

theorem status_register_phases:
  "map fst (phases_written s (fst (convertToHLS E oid s)))
     = replicate (length (phases_written s (fst (convertToHLS E oid s)))) oid
   \<and> map snd (phases_written s (fst (convertToHLS E oid s)))
       \<in> {[''converting'', ''uploading'', ''completed''],
          [''converting'', ''uploading'', ''error''],
          [''converting'', ''error'']}
   \<and> sorted_wrt (<) (map phase_rank (map snd (phases_written s (fst (convertToHLS E oid s)))))
   \<and> getConversionStatus (fst (convertToHLS E oid s)) oid
       = Some (last (map snd (phases_written s (fst (convertToHLS E oid s)))))
   \<and> ((snd (convertToHLS E oid s) = Inr ())
        = (getConversionStatus (fst (convertToHLS E oid s)) oid = Some ''completed''))
   \<and> ((\<exists>e. snd (convertToHLS E oid s) = Inl e)
        = (getConversionStatus (fst (convertToHLS E oid s)) oid = Some ''error''))
   \<and> (mkdir_hls E = Some e \<longrightarrow> snd (convertToHLS E oid s) = Inl e)
   \<and> (mkdir_hls E = None \<and> probe E = Inl e \<longrightarrow> snd (convertToHLS E oid s) = Inl e)
   \<and> (mkdir_hls E = None \<and> probe E = Inr (w, h) \<and> getDynamicResolutions w h 1 = Inr rs
        \<and> encode_tiers (encode E) rs [] = Inl e
       \<longrightarrow> snd (convertToHLS E oid s) = Inl e)
   \<and> (mkdir_hls E = None \<and> probe E = Inr (w, h) \<and> getDynamicResolutions w h 1 = Inr rs
        \<and> encode_tiers (encode E) rs [] = Inr vs \<and> write_manifest E (masterPlaylist vs) = Some e
       \<longrightarrow> snd (convertToHLS E oid s) = Inl e)
   \<and> (mkdir_hls E = None \<and> probe E = Inr (w, h) \<and> getDynamicResolutions w h 1 = Inr rs
        \<and> encode_tiers (encode E) rs [] = Inr vs \<and> write_manifest E (masterPlaylist vs) = None
        \<and> outcome (uploadHlsFilesToS3 (s3_upload E) (hls_items E)
                     (path_join (path_join (UPLOADS_DIR E) ''hls'') oid) oid) = Inl e
       \<longrightarrow> snd (convertToHLS E oid s) = Inl e)
   \<and> (mkdir_hls E = None \<and> probe E = Inr (w, h)
        \<and> getDynamicResolutions w h 1 = Inr (pre @ r # post)
        \<and> (\<forall>x \<in> set pre. encode E x = None) \<and> encode E r = Some e
       \<longrightarrow> snd (convertToHLS E oid s) = Inl e)
   \<and> (mkdir_hls E = None \<and> probe E = Inr (w, h) \<and> getDynamicResolutions w h 1 = Inr rs
        \<and> (\<forall>x \<in> set rs. encode E x = None)
        \<and> write_manifest E (masterPlaylist (map variant_of rs)) = None
        \<and> (\<exists>p \<in> set (calls (uploadHlsFilesToS3 (s3_upload E) (hls_items E)
                                (path_join (path_join (UPLOADS_DIR E) ''hls'') oid) oid)).
               s3_upload E p \<noteq> None)
       \<longrightarrow> (\<exists>p \<in> set (calls (uploadHlsFilesToS3 (s3_upload E) (hls_items E)
                                (path_join (path_join (UPLOADS_DIR E) ''hls'') oid) oid)).
               \<exists>e'. s3_upload E p = Some e' \<and> snd (convertToHLS E oid s) = Inl e'))
   \<and> (mkdir_hls E = None \<and> probe E = Inr (w, h) \<and> getDynamicResolutions w h 1 = Inr rs
        \<and> (\<forall>x \<in> set rs. encode E x = None)
        \<and> write_manifest E (masterPlaylist (map variant_of rs)) = None
        \<and> (\<forall>p \<in> set (calls (uploadHlsFilesToS3 (s3_upload E) (hls_items E)
                                (path_join (path_join (UPLOADS_DIR E) ''hls'') oid) oid)).
               s3_upload E p = None)
       \<longrightarrow> snd (convertToHLS E oid s) = Inr ())"
proof -
  let ?ws = "phases_written s (fst (convertToHLS E oid s))"
  let ?r = "snd (convertToHLS E oid s)"
  let ?st = "getConversionStatus (fst (convertToHLS E oid s)) oid"
  note tr = convertToHLS_trace [of s E oid]
  have a: "map fst ?ws = replicate (length ?ws) oid"
    using tr by (elim disjE conjE) simp_all
  have b: "map snd ?ws \<in> {[''converting'', ''uploading'', ''completed''],
          [''converting'', ''uploading'', ''error''], [''converting'', ''error'']}"
    using tr by (elim disjE conjE) simp_all
  have c: "sorted_wrt (<) (map phase_rank (map snd ?ws))"
    using tr by (elim disjE conjE) (simp_all add: phase_rank_def)
  have d: "?st = Some (last (map snd ?ws))"
    using tr by (elim disjE conjE) simp_all
  have f: "(?r = Inr ()) = (?st = Some ''completed'')"
    using tr by (elim disjE conjE) auto
  have g: "(\<exists>e. ?r = Inl e) = (?st = Some ''error'')"
    using tr by (elim disjE conjE) auto
  have p1: "mkdir_hls E = Some e \<longrightarrow> ?r = Inl e"
    by (simp add: convertToHLS_propagates)
  have p2: "mkdir_hls E = None \<and> probe E = Inl e \<longrightarrow> ?r = Inl e"
    by (simp add: convertToHLS_propagates)
  have p3: "mkdir_hls E = None \<and> probe E = Inr (w, h) \<and> getDynamicResolutions w h 1 = Inr rs
        \<and> encode_tiers (encode E) rs [] = Inl e \<longrightarrow> ?r = Inl e"
    by (simp add: convertToHLS_propagates)
  have p4: "mkdir_hls E = None \<and> probe E = Inr (w, h) \<and> getDynamicResolutions w h 1 = Inr rs
        \<and> encode_tiers (encode E) rs [] = Inr vs \<and> write_manifest E (masterPlaylist vs) = Some e
       \<longrightarrow> ?r = Inl e"
    by (simp add: convertToHLS_propagates)
  have p5: "mkdir_hls E = None \<and> probe E = Inr (w, h) \<and> getDynamicResolutions w h 1 = Inr rs
        \<and> encode_tiers (encode E) rs [] = Inr vs \<and> write_manifest E (masterPlaylist vs) = None
        \<and> outcome (uploadHlsFilesToS3 (s3_upload E) (hls_items E)
                     (path_join (path_join (UPLOADS_DIR E) ''hls'') oid) oid) = Inl e
       \<longrightarrow> ?r = Inl e"
    by (simp add: convertToHLS_propagates)
  let ?up = "uploadHlsFilesToS3 (s3_upload E) (hls_items E)
               (path_join (path_join (UPLOADS_DIR E) ''hls'') oid) oid"
  have p6: "mkdir_hls E = None \<and> probe E = Inr (w, h)
        \<and> getDynamicResolutions w h 1 = Inr (pre @ r # post)
        \<and> (\<forall>x \<in> set pre. encode E x = None) \<and> encode E r = Some e
       \<longrightarrow> ?r = Inl e"
    using encode_tiers_first_failure [of pre "encode E" r e post "[]"]
    by (simp add: convertToHLS_propagates)
  have p7: "mkdir_hls E = None \<and> probe E = Inr (w, h) \<and> getDynamicResolutions w h 1 = Inr rs
        \<and> (\<forall>x \<in> set rs. encode E x = None)
        \<and> write_manifest E (masterPlaylist (map variant_of rs)) = None
        \<and> (\<exists>p \<in> set (calls ?up). s3_upload E p \<noteq> None)
       \<longrightarrow> (\<exists>p \<in> set (calls ?up). \<exists>e'. s3_upload E p = Some e' \<and> ?r = Inl e')"
  proof (intro impI, elim conjE)
    assume h: "mkdir_hls E = None" "probe E = Inr (w, h)" "getDynamicResolutions w h 1 = Inr rs"
      "\<forall>x \<in> set rs. encode E x = None"
      "write_manifest E (masterPlaylist (map variant_of rs)) = None"
      "\<exists>p \<in> set (calls ?up). s3_upload E p \<noteq> None"
    from h(6) obtain e' where o: "outcome ?up = Inl e'"
      using upload_outcome_failure by blast
    from upload_failure_origin [OF o] obtain p where
      p: "p \<in> set (calls ?up)" "s3_upload E p = Some e'" by blast
    have "?r = Inl e'"
      using h(1-5) o encode_tiers_all_ok [OF h(4), of "[]"]
      by (simp add: convertToHLS_propagates)
    with p show "\<exists>p \<in> set (calls ?up). \<exists>e'. s3_upload E p = Some e' \<and> ?r = Inl e'"
      by blast
  qed
  have p8: "mkdir_hls E = None \<and> probe E = Inr (w, h) \<and> getDynamicResolutions w h 1 = Inr rs
        \<and> (\<forall>x \<in> set rs. encode E x = None)
        \<and> write_manifest E (masterPlaylist (map variant_of rs)) = None
        \<and> (\<forall>p \<in> set (calls ?up). s3_upload E p = None)
       \<longrightarrow> ?r = Inr ()"
  proof (intro impI, elim conjE)
    assume h: "mkdir_hls E = None" "probe E = Inr (w, h)" "getDynamicResolutions w h 1 = Inr rs"
      "\<forall>x \<in> set rs. encode E x = None"
      "write_manifest E (masterPlaylist (map variant_of rs)) = None"
      "\<forall>p \<in> set (calls ?up). s3_upload E p = None"
    have o: "outcome ?up = Inr ()"
      using h(6) upload_outcome_success by blast
    show "?r = Inr ()"
      using h(1-5) o encode_tiers_all_ok [OF h(4), of "[]"]
      by (simp add: convertToHLS_propagates)
  qed
  show ?thesis
    by (intro conjI a b c d f g p1 p2 p3 p4 p5 p6 p7 p8)
qed


lemma plan_1080p:
  "getDynamicResolutions 1920 1080 1 =
     Inr [\<lparr>r_width = 1920, r_height = 1080, r_bitrate = ''5000k'', r_crf = 22,
           r_name = ''1080p''\<rparr>,
          \<lparr>r_width = 1280, r_height = 720, r_bitrate = ''1111k'', r_crf = 23,
           r_name = ''720p''\<rparr>,
          \<lparr>r_width = 854, r_height = 480, r_bitrate = ''198k'', r_crf = 23,
           r_name = ''480p''\<rparr>]"
  by (simp add: planner_eval)

lemma example_upload_ok:
  "outcome (uploadHlsFilesToS3 (\<lambda>p. None) items dir oid) = Inr ()"
proof -
  have "List.map_filter (\<lambda>p. None :: error option) xs = []" for xs :: "upload_params list"
    by (simp add: map_filter_empty_iff)
  then show ?thesis
    by (simp add: uploadHlsFilesToS3_def Let_def)
qed

lemma example_upload_fails:
  "outcome (uploadHlsFilesToS3 (\<lambda>p. Some err) (File name # items) dir oid) = Inl err"
  by (simp add: uploadHlsFilesToS3_def Let_def)

text \<open>
  C8 on four runs: the probe finds no video stream, the storage gateway refuses the
  uploads, every stage succeeds, and the encoder fails on the second tier.
\<close>

theorem status_register_phases_witness:
  "snd (convertToHLS (example_env\<lparr>probe := Inl NoVideoStream\<rparr>) ''v1'' example_state)
     = Inl NoVideoStream
   \<and> phases_written example_state
        (fst (convertToHLS (example_env\<lparr>probe := Inl NoVideoStream\<rparr>) ''v1'' example_state))
       = [(''v1'', ''converting''), (''v1'', ''error'')]
   \<and> snd (convertToHLS (example_env\<lparr>s3_upload := (\<lambda>p. Some (External ''s3''))\<rparr>) ''v1''
            example_state)
       = Inl (External ''s3'')
   \<and> phases_written example_state
        (fst (convertToHLS (example_env\<lparr>s3_upload := (\<lambda>p. Some (External ''s3''))\<rparr>) ''v1''
                example_state))
       = [(''v1'', ''converting''), (''v1'', ''uploading''), (''v1'', ''error'')]
   \<and> snd (convertToHLS example_env ''v1'' example_state) = Inr ()
   \<and> getConversionStatus (fst (convertToHLS example_env ''v1'' example_state)) ''v1''
       = Some ''completed''
   \<and> snd (convertToHLS
              (example_env\<lparr>encode := (\<lambda>r. if r_name r = ''720p'' then Some (External ''ffmpeg'')
                                            else None)\<rparr>) ''v1'' example_state)
       = Inl (External ''ffmpeg'')
   \<and> phases_written example_state
        (fst (convertToHLS
                (example_env\<lparr>encode := (\<lambda>r. if r_name r = ''720p''
                                              then Some (External ''ffmpeg'') else None)\<rparr>)
                ''v1'' example_state))
       = [(''v1'', ''converting''), (''v1'', ''error'')]"
proof -
  let ?Ea = "example_env\<lparr>probe := Inl NoVideoStream\<rparr>"
  let ?Eb = "example_env\<lparr>s3_upload := (\<lambda>p. Some (External ''s3''))\<rparr>"
  let ?rs = "[\<lparr>r_width = 1920, r_height = 1080, r_bitrate = ''5000k'', r_crf = 22,
           r_name = ''1080p''\<rparr>,
          \<lparr>r_width = 1280, r_height = 720, r_bitrate = ''1111k'', r_crf = 23,
           r_name = ''720p''\<rparr>,
          \<lparr>r_width = 854, r_height = 480, r_bitrate = ''198k'', r_crf = 23,
           r_name = ''480p''\<rparr>]"
  have h1: "mkdir_hls ?Ea = None \<and> probe ?Ea = Inl NoVideoStream"
    by (simp add: example_env_def)
  have r1: "snd (convertToHLS ?Ea ''v1'' example_state) = Inl NoVideoStream"
    by (rule status_register_phases [of example_state ?Ea "''v1''" NoVideoStream,
          THEN conjunct2, THEN conjunct2, THEN conjunct2, THEN conjunct2, THEN conjunct2, THEN conjunct2, THEN conjunct2, THEN conjunct1, THEN mp, OF h1])
  have t1: "phases_written example_state (fst (convertToHLS ?Ea ''v1'' example_state))
       = [(''v1'', ''converting''), (''v1'', ''error'')]"
    by (simp add: convertToHLS_def convertToHLS_try_def Let_def example_env_def
          example_state_def set_status_def log_swallowed_def phases_written_def)
  have enc2: "encode_tiers (encode ?Eb) ?rs [] = Inr (map variant_of ?rs)"
    using encode_tiers_all_ok [of ?rs "encode ?Eb" "[]"] by (simp add: example_env_def)
  have h2: "mkdir_hls ?Eb = None \<and> probe ?Eb = Inr (1920, 1080)
        \<and> getDynamicResolutions 1920 1080 1 = Inr ?rs
        \<and> encode_tiers (encode ?Eb) ?rs [] = Inr (map variant_of ?rs)
        \<and> write_manifest ?Eb (masterPlaylist (map variant_of ?rs)) = None
        \<and> outcome (uploadHlsFilesToS3 (s3_upload ?Eb) (hls_items ?Eb)
                     (path_join (path_join (UPLOADS_DIR ?Eb) ''hls'') ''v1'') ''v1'')
            = Inl (External ''s3'')"
    using enc2 plan_1080p by (simp add: example_env_def example_upload_fails)
  have r2: "snd (convertToHLS ?Eb ''v1'' example_state) = Inl (External ''s3'')"
    by (rule status_register_phases [of example_state ?Eb "''v1''" "External ''s3''" 1920 1080
          ?rs "map variant_of ?rs",
          THEN conjunct2, THEN conjunct2, THEN conjunct2, THEN conjunct2, THEN conjunct2, THEN conjunct2, THEN conjunct2, THEN conjunct2, THEN conjunct2, THEN conjunct2, THEN conjunct1, THEN mp, OF h2])
  have st2: "getConversionStatus (fst (convertToHLS ?Eb ''v1'' example_state)) ''v1'' = Some ''error''"
    using status_register_phases [of example_state ?Eb "''v1''", THEN conjunct2, THEN conjunct2, THEN conjunct2, THEN conjunct2, THEN conjunct2, THEN conjunct1] r2
    by simp
  have t2: "phases_written example_state (fst (convertToHLS ?Eb ''v1'' example_state))
       = [(''v1'', ''converting''), (''v1'', ''uploading''), (''v1'', ''error'')]"
    using convertToHLS_trace [of example_state ?Eb "''v1''"] r2 enc2 plan_1080p
    by (simp add: convertToHLS_history convertToHLS_try_def Let_def phases_written_def
          example_state_def example_env_def set_status_def log_swallowed_def example_upload_fails)
  have r3: "snd (convertToHLS example_env ''v1'' example_state) = Inr ()"
    using plan_1080p encode_tiers_all_ok [of ?rs "encode example_env" "[]"]
    by (simp add: convertToHLS_propagates example_env_def example_upload_ok)
  have st3: "getConversionStatus (fst (convertToHLS example_env ''v1'' example_state)) ''v1''
       = Some ''completed''"
    using status_register_phases [of example_state example_env "''v1''", THEN conjunct2, THEN conjunct2, THEN conjunct2, THEN conjunct2, THEN conjunct1] r3
    by simp
  let ?Ec = "example_env\<lparr>encode := (\<lambda>r. if r_name r = ''720p'' then Some (External ''ffmpeg'')
                                            else None)\<rparr>"
  let ?ta = "\<lparr>r_width = 1920, r_height = 1080, r_bitrate = ''5000k'', r_crf = 22,
           r_name = ''1080p''\<rparr>"
  let ?tb = "\<lparr>r_width = 1280, r_height = 720, r_bitrate = ''1111k'', r_crf = 23,
           r_name = ''720p''\<rparr>"
  let ?tc = "\<lparr>r_width = 854, r_height = 480, r_bitrate = ''198k'', r_crf = 23,
           r_name = ''480p''\<rparr>"
  have h3: "mkdir_hls ?Ec = None \<and> probe ?Ec = Inr (1920, 1080)
        \<and> getDynamicResolutions 1920 1080 1 = Inr ([?ta] @ ?tb # [?tc])
        \<and> (\<forall>x \<in> set [?ta]. encode ?Ec x = None)
        \<and> encode ?Ec ?tb = Some (External ''ffmpeg'')"
    using plan_1080p by (simp add: example_env_def)
  have r4: "snd (convertToHLS ?Ec ''v1'' example_state) = Inl (External ''ffmpeg'')"
    by (rule status_register_phases [where s = example_state and E = ?Ec and oid = "''v1''"
         and e = "External ''ffmpeg''" and w = 1920 and h = 1080
         and pre = "[?ta]" and r = ?tb and post = "[?tc]",
         THEN conjunct2, THEN conjunct2, THEN conjunct2, THEN conjunct2, THEN conjunct2, THEN conjunct2, THEN conjunct2, THEN conjunct2, THEN conjunct2, THEN conjunct2, THEN conjunct2, THEN conjunct1, THEN mp, OF h3])
  have t4: "phases_written example_state (fst (convertToHLS ?Ec ''v1'' example_state))
       = [(''v1'', ''converting''), (''v1'', ''error'')]"
    using plan_1080p
    by (simp add: convertToHLS_def convertToHLS_try_def Let_def example_env_def
          example_state_def set_status_def log_swallowed_def phases_written_def)
  from r1 t1 r2 t2 r3 st3 r4 t4 show ?thesis by (intro conjI)
qed

section \<open>The end-to-end scenario\<close>

lemma convertToHLS_written:
  assumes "mkdir_hls E = None" and "probe E = Inr (w, h)"
    and "getDynamicResolutions w h 1 = Inr rs"
    and "encode_tiers (encode E) rs [] = Inr vs"
    and "write_manifest E (masterPlaylist vs) = None"
  shows "written (fst (convertToHLS E oid s)) =
           written s @ [(path_join (path_join (path_join (UPLOADS_DIR E) ''hls'') oid)
                           ''master.m3u8'',
                         masterPlaylist vs)]"
  using assms
  by (simp add: convertToHLS_def convertToHLS_try_def Let_def set_status_def log_swallowed_def
        split: option.splits sum.splits prod.splits)

lemma bandwidth_text_literals:
  "bandwidth_text ''5000k'' = ''5000000''" "bandwidth_text ''198k'' = ''198000''"
proof -
  have "string_of_int 5000 = ''5000''" "string_of_int 5000000 = ''5000000''"
    "string_of_int 198 = ''198''" "string_of_int 198000 = ''198000''"
    by (simp_all add: string_of_int_def string_of_nat.simps digit_char_def)
  then show "bandwidth_text ''5000k'' = ''5000000''" "bandwidth_text ''198k'' = ''198000''"
    using bandwidth_text_bitrate [of 5000] bandwidth_text_bitrate [of 198] by simp_all
qed

lemma manifest_1080p:
  "masterPlaylist
     (map variant_of
        [\<lparr>r_width = 1920, r_height = 1080, r_bitrate = ''5000k'', r_crf = 22,
           r_name = ''1080p''\<rparr>,
         \<lparr>r_width = 1280, r_height = 720, r_bitrate = ''1111k'', r_crf = 23,
           r_name = ''720p''\<rparr>,
         \<lparr>r_width = 854, r_height = 480, r_bitrate = ''198k'', r_crf = 23,
           r_name = ''480p''\<rparr>]) =
   join newline
     [''#EXTM3U'',
      ''#EXT-X-STREAM-INF:BANDWIDTH=5000000,RESOLUTION=1920x1080'', ''1080p/index.m3u8'',
      ''#EXT-X-STREAM-INF:BANDWIDTH=1111000,RESOLUTION=1280x720'', ''720p/index.m3u8'',
      ''#EXT-X-STREAM-INF:BANDWIDTH=198000,RESOLUTION=854x480'', ''480p/index.m3u8'']"
proof -
  have num: "string_of_nat 1920 = ''1920''" "string_of_nat 1080 = ''1080''"
    "string_of_nat 1280 = ''1280''" "string_of_nat 720 = ''720''"
    "string_of_nat 854 = ''854''" "string_of_nat 480 = ''480''"
    by (simp_all add: string_of_nat.simps digit_char_def)
  show ?thesis
    by (subst masterPlaylist_lines)
       (simp_all add: variant_of_def stream_inf_def num bandwidth_text_literals
          bandwidth_text_1111)
qed

text \<open>
  Claim C2, as amended. For a 720-second source of 1920 by 1080 whose mandatory stages
  succeed, the plan is 1080p, 720p, 480p in this order (2160p and 1440p would upscale),
  the master manifest written holds exactly three stream-info lines in this order, and
  the sprite sheet generator takes the grid of durations above 600 seconds: 8 rows by
  10 columns, 80 frames.
\<close>

theorem end_to_end_1080p:
  assumes "mkdir_hls E = None" and "probe E = Inr (1920, 1080)"
    and "\<forall>r. encode E r = None" and "\<forall>c. write_manifest E c = None"
  shows "getDynamicResolutions 1920 1080 1 =
           Inr [\<lparr>r_width = 1920, r_height = 1080, r_bitrate = ''5000k'', r_crf = 22,
                 r_name = ''1080p''\<rparr>,
                \<lparr>r_width = 1280, r_height = 720, r_bitrate = ''1111k'', r_crf = 23,
                 r_name = ''720p''\<rparr>,
                \<lparr>r_width = 854, r_height = 480, r_bitrate = ''198k'', r_crf = 23,
                 r_name = ''480p''\<rparr>]
         \<and> written (fst (convertToHLS E oid s)) =
             written s @
               [(path_join (path_join (path_join (UPLOADS_DIR E) ''hls'') oid) ''master.m3u8'',
                 join newline
                   [''#EXTM3U'',
                    ''#EXT-X-STREAM-INF:BANDWIDTH=5000000,RESOLUTION=1920x1080'',
                    ''1080p/index.m3u8'',
                    ''#EXT-X-STREAM-INF:BANDWIDTH=1111000,RESOLUTION=1280x720'',
                    ''720p/index.m3u8'',
                    ''#EXT-X-STREAM-INF:BANDWIDTH=198000,RESOLUTION=854x480'',
                    ''480p/index.m3u8''])]
         \<and> generateSpriteSheet_plan 720 =
             Inr \<lparr>rows = 8, cols = 10, numThumbnails = 80,
                   safeStart = 2, safeEnd = 718, safeDuration = 716\<rparr>"
proof -
  let ?rs = "[\<lparr>r_width = 1920, r_height = 1080, r_bitrate = ''5000k'', r_crf = 22,
                 r_name = ''1080p''\<rparr>,
                \<lparr>r_width = 1280, r_height = 720, r_bitrate = ''1111k'', r_crf = 23,
                 r_name = ''720p''\<rparr>,
                \<lparr>r_width = 854, r_height = 480, r_bitrate = ''198k'', r_crf = 23,
                 r_name = ''480p''\<rparr>]"
  have enc: "encode_tiers (encode E) ?rs [] = Inr (map variant_of ?rs)"
    using encode_tiers_all_ok [of ?rs "encode E" "[]"] assms(3) by simp
  have wr: "write_manifest E (masterPlaylist (map variant_of ?rs)) = None"
    using assms(4) by simp
  have w: "written (fst (convertToHLS E oid s)) =
             written s @
               [(path_join (path_join (path_join (UPLOADS_DIR E) ''hls'') oid) ''master.m3u8'',
                 masterPlaylist (map variant_of ?rs))]"
    by (rule convertToHLS_written [OF assms(1,2) plan_1080p enc wr])
  have g: "generateSpriteSheet_plan 720 =
             Inr \<lparr>rows = 8, cols = 10, numThumbnails = 80,
                   safeStart = 2, safeEnd = 718, safeDuration = 716\<rparr>"
    by (simp add: generateSpriteSheet_plan_def sprite_grid_def Let_def)
  from plan_1080p w [unfolded manifest_1080p] g show ?thesis by (intro conjI)
qed

text \<open>
  The amended C2 on the example run.
\<close>

theorem end_to_end_1080p_witness:
  "mkdir_hls example_env = None \<and> probe example_env = Inr (1920, 1080)
   \<and> written (fst (convertToHLS example_env ''v1'' example_state)) =
       [(''/app/uploads/hls/v1/master.m3u8'',
         join newline
           [''#EXTM3U'',
            ''#EXT-X-STREAM-INF:BANDWIDTH=5000000,RESOLUTION=1920x1080'', ''1080p/index.m3u8'',
            ''#EXT-X-STREAM-INF:BANDWIDTH=1111000,RESOLUTION=1280x720'', ''720p/index.m3u8'',
            ''#EXT-X-STREAM-INF:BANDWIDTH=198000,RESOLUTION=854x480'', ''480p/index.m3u8''])]"
proof -
  have h: "mkdir_hls example_env = None" "probe example_env = Inr (1920, 1080)"
    "\<forall>r. encode example_env r = None" "\<forall>c. write_manifest example_env c = None"
    by (simp_all add: example_env_def)
  have p: "path_join (path_join (path_join (UPLOADS_DIR example_env) ''hls'') ''v1'') ''master.m3u8''
             = ''/app/uploads/hls/v1/master.m3u8''"
    by (simp add: path_join_def UPLOADS_DIR_def example_env_def)
  have s: "written example_state = []" by (simp add: example_state_def)
  from end_to_end_1080p [OF h, of "''v1''" example_state] h(1,2) show ?thesis
    unfolding p s by simp
qed

text \<open>
  Claim C2 as stated fails on the sprite grid: 720 seconds is above 600, so the grid is
  8 by 10 with 80 frames, not 6 by 8 with 48.
\<close>

theorem end_to_end_sprite_grid_counterexample:
  "generateSpriteSheet_plan 720 =
     Inr \<lparr>rows = 8, cols = 10, numThumbnails = 80, safeStart = 2, safeEnd = 718,
           safeDuration = 716\<rparr>
   \<and> sprite_grid 720 = (8, 10)
   \<and> sprite_grid 720 \<noteq> (6, 8)
   \<and> (8::nat) * 10 \<noteq> 48"
  by (simp add: generateSpriteSheet_plan_def sprite_grid_def Let_def)

end
